theory Spec2Isabelle
  imports Complex_Main "HOL-Library.AList"
begin

section \<open>JavaScript values\<close>

text \<open>
  The engine is JavaScript. Arguments whose type the code tests with \<^verbatim>\<open>typeof\<close> are
  modelled by the datatype below. JavaScript numbers are modelled as real numbers:
  rounding and the non-finite values are outside the model, except that a division by
  zero is written out where the code divides (see \<open>jsdiv\<close>).
\<close>

datatype jsval =
    JUndefined
  | JNull
  | JBoolean bool
  | JNumber real
  | JString string
  | JFunction nat
  | JArray "string list"

datatype jstype = TyUndefined | TyObject | TyBoolean | TyNumber | TyString | TyFunction

fun typeof :: "jsval \<Rightarrow> jstype" where
  "typeof JUndefined = TyUndefined"
| "typeof JNull = TyObject"
| "typeof (JBoolean b) = TyBoolean"
| "typeof (JNumber x) = TyNumber"
| "typeof (JString s) = TyString"
| "typeof (JFunction f) = TyFunction"
| "typeof (JArray xs) = TyObject"

section \<open>Html5AudioPool: the pool of HTML5 audio nodes\<close>

text \<open>
  The pool's test suite (\<^verbatim>\<open>Html5AudioPool\<close> spec) is in the repository's sources, the
  class itself is not. Its data is the one the tests build by hand:
  \<^verbatim>\<open>_resourceNodesMap[url] = { unallocated: [...], allocated: { groupId: [{audio, soundId}] } }\<close>.
  An \<^verbatim>\<open>Audio\<close> element is an object with identity; it is represented by the number
  of elements the pool created before it.
\<close>

datatype PoolError = PoolExhausted string | NoFreeNodes nat

record Handle =
  audio :: nat
  soundId :: "nat option"

record ResourceNodes =
  unallocated :: "Handle list"
  allocated :: "(nat \<times> Handle list) list"

record Html5AudioPool =
  maxNodesPerSource :: real
  resourceNodesMap :: "(string \<times> ResourceNodes) list"
  audioCount :: nat

definition Html5AudioPool_new :: "real \<Rightarrow> Html5AudioPool" where
  "Html5AudioPool_new maxNodes =
     \<lparr>maxNodesPerSource = maxNodes, resourceNodesMap = [], audioCount = 0\<rparr>"

definition emptyNodes :: ResourceNodes where
  "emptyNodes = \<lparr>unallocated = [], allocated = []\<rparr>"

definition totalNodes :: "ResourceNodes \<Rightarrow> nat" where
  "totalNodes r = length (unallocated r) + sum_list (map (\<lambda>(g, hs). length hs) (allocated r))"

definition liveHandles :: "Html5AudioPool \<Rightarrow> string \<Rightarrow> nat" where
  "liveHandles p url =
     (case map_of (resourceNodesMap p) url of None \<Rightarrow> 0 | Some r \<Rightarrow> totalNodes r)"

text \<open>
  Modelled from the spec: \<^verbatim>\<open>Html5AudioPool.allocateForSource\<close> is not among the
  sources. The spec: it ensures a pool entry exists for the url; if the total handles for
  the url (unallocated plus all allocated) is below the configured maximum, it creates a
  new handle and appends it to \<open>unallocated\<close>, returning it; if the maximum is already
  reached it fails with a \<open>PoolExhausted\<close> error naming the resource. The pool after
  the call is returned in both cases, as a thrown error leaves the object behind.
\<close>

definition allocateForSource ::
  "string \<Rightarrow> Html5AudioPool \<Rightarrow> Html5AudioPool \<times> (PoolError + Handle)" where
  "allocateForSource url p =
     (let r = (case map_of (resourceNodesMap p) url of None \<Rightarrow> emptyNodes | Some r \<Rightarrow> r) in
      if real (totalNodes r) < maxNodesPerSource p then
        (let h = \<lparr>audio = audioCount p, soundId = None\<rparr> in
         (p\<lparr>resourceNodesMap :=
               AList.update url (r\<lparr>unallocated := unallocated r @ [h]\<rparr>) (resourceNodesMap p),
             audioCount := Suc (audioCount p)\<rparr>,
          Inr h))
      else
        (p\<lparr>resourceNodesMap := AList.update url r (resourceNodesMap p)\<rparr>,
         Inl (PoolExhausted url)))"

text \<open>A sequence of calls on one resource: the pool after them, and each call's result.\<close>

fun allocateForSource_calls ::
  "nat \<Rightarrow> string \<Rightarrow> Html5AudioPool \<Rightarrow> Html5AudioPool \<times> (PoolError + Handle) list" where
  "allocateForSource_calls 0 url p = (p, [])"
| "allocateForSource_calls (Suc n) url p =
     (let (p1, res) = allocateForSource url p;
          (p2, ress) = allocateForSource_calls n url p1
      in (p2, res # ress))"

text \<open>
  Modelled from the spec: \<^verbatim>\<open>allocateForGroup\<close>, \<^verbatim>\<open>destroyAllocatedAudio\<close> and
  \<^verbatim>\<open>releaseForSource\<close> of the pool are not among the sources either; the loader
  below calls them. The spec: \<open>allocateForGroup\<close> pops an unallocated handle into
  \<open>allocated[groupId]\<close> if there is one, otherwise creates a handle there if under the
  maximum, otherwise fails with \<open>PoolExhausted\<close>; \<open>destroyAllocatedAudio\<close> removes the
  handle from \<open>allocated[groupId]\<close> and does not return it to the pool;
  \<open>releaseForSource\<close> discards the whole entry of the url.
\<close>

definition allocateForGroup ::
  "string \<Rightarrow> nat \<Rightarrow> Html5AudioPool \<Rightarrow> Html5AudioPool \<times> (PoolError + Handle)" where
  "allocateForGroup url g p =
     (let r = (case map_of (resourceNodesMap p) url of None \<Rightarrow> emptyNodes | Some r \<Rightarrow> r);
          hs = (case map_of (allocated r) g of None \<Rightarrow> [] | Some hs \<Rightarrow> hs) in
      if unallocated r \<noteq> [] then
        (let h = last (unallocated r) in
         (p\<lparr>resourceNodesMap :=
               AList.update url
                 (r\<lparr>unallocated := butlast (unallocated r),
                    allocated := AList.update g (hs @ [h]) (allocated r)\<rparr>)
                 (resourceNodesMap p)\<rparr>,
          Inr h))
      else if real (totalNodes r) < maxNodesPerSource p then
        (let h = \<lparr>audio = audioCount p, soundId = None\<rparr> in
         (p\<lparr>resourceNodesMap :=
               AList.update url (r\<lparr>allocated := AList.update g (hs @ [h]) (allocated r)\<rparr>)
                 (resourceNodesMap p),
             audioCount := Suc (audioCount p)\<rparr>,
          Inr h))
      else
        (p\<lparr>resourceNodesMap := AList.update url r (resourceNodesMap p)\<rparr>,
         Inl (PoolExhausted url)))"

definition destroyAllocatedAudio ::
  "string \<Rightarrow> nat option \<Rightarrow> nat \<Rightarrow> Html5AudioPool \<Rightarrow> Html5AudioPool" where
  "destroyAllocatedAudio url groupId a p =
     (case map_of (resourceNodesMap p) url of
        None \<Rightarrow> p
      | Some r \<Rightarrow>
          (case groupId of
             None \<Rightarrow> p
           | Some g \<Rightarrow>
               (case map_of (allocated r) g of
                  None \<Rightarrow> p
                | Some hs \<Rightarrow>
                    p\<lparr>resourceNodesMap :=
                        AList.update url
                          (r\<lparr>allocated :=
                               AList.update g (filter (\<lambda>h. audio h \<noteq> a) hs) (allocated r)\<rparr>)
                          (resourceNodesMap p)\<rparr>)))"

definition releaseForSource :: "string \<Rightarrow> Html5AudioPool \<Rightarrow> Html5AudioPool" where
  "releaseForSource url p = p\<lparr>resourceNodesMap := AList.delete url (resourceNodesMap p)\<rparr>"

text \<open>
  The pool the test suite builds for "when the total nodes reached the limit": a maximum
  of 2, and for \<^verbatim>\<open>url1\<close> no unallocated node and one node in each of the groups 1 and 2.
\<close>

definition poolAtLimit :: Html5AudioPool where
  "poolAtLimit =
     \<lparr>maxNodesPerSource = 2,
      resourceNodesMap =
        [(''url1'', \<lparr>unallocated = [],
                      allocated = [(1, [\<lparr>audio = 0, soundId = Some 101\<rparr>]),
                                   (2, [\<lparr>audio = 1, soundId = Some 102\<rparr>])]\<rparr>)],
      audioCount = 2\<rparr>"

section \<open>MediaLoader: loading HTML5 audio nodes\<close>

text \<open>
  \<^verbatim>\<open>src/MediaLoader.js\<close>. The loader's fields are \<open>audioPool\<close>, \<open>bufferingAudios\<close>
  and \<open>disposed\<close>; the first two are \<^verbatim>\<open>null\<close> after \<open>dispose\<close>, hence the options.
  The \<^verbatim>\<open>Audio\<close> elements are shared between the pool, the buffering list and the
  browser, so they live in a store \<open>elements\<close> indexed by their identity; the promises
  the loader has returned live in \<open>promises\<close>, the k-th \<^verbatim>\<open>_load\<close> call's at index k.
  An exception leaves the state it was thrown in, so every operation returns the loader
  together with the error thrown, if any.
\<close>

datatype JsError = TypeError | PoolFailure PoolError

record DownloadResult =
  dr_url :: string
  dr_value :: "nat option"
  dr_error :: "string option"

datatype Promise = Pending | Resolved DownloadResult | Rejected JsError

text \<open>
  The two closures \<^verbatim>\<open>onCanPlayThrough\<close> and \<^verbatim>\<open>onError\<close> that \<^verbatim>\<open>_load\<close> creates: the
  code, and the variables it captured (url, groupId, audio, and the promise's resolve).
\<close>

datatype HandlerKind = OnCanPlayThrough | OnError

record Listener =
  l_kind :: HandlerKind
  l_url :: string
  l_groupId :: "nat option"
  l_audio :: nat
  l_promise :: nat

record AudioElement =
  src :: string
  readyState :: nat
  el_currentTime :: real
  listeners :: "(string \<times> Listener) list"
  loadCalls :: nat

definition newAudio :: AudioElement where
  "newAudio = \<lparr>src = [], readyState = 0, el_currentTime = 0, listeners = [], loadCalls = 0\<rparr>"

definition addEventListener :: "string \<Rightarrow> Listener \<Rightarrow> AudioElement \<Rightarrow> AudioElement" where
  "addEventListener evt f el =
     (if (evt, f) \<in> set (listeners el) then el else el\<lparr>listeners := listeners el @ [(evt, f)]\<rparr>)"

text \<open>
  \<^verbatim>\<open>removeEventListener(evt, f)\<close>: with \<^verbatim>\<open>f\<close> undefined (no listener given) the
  browser removes nothing.
\<close>

definition removeEventListener ::
  "string \<Rightarrow> Listener option \<Rightarrow> AudioElement \<Rightarrow> AudioElement" where
  "removeEventListener evt f el =
     (case f of
        None \<Rightarrow> el
      | Some g \<Rightarrow> el\<lparr>listeners := remove1 (evt, g) (listeners el)\<rparr>)"

record AudioObj =
  ao_url :: string
  ao_groupId :: "nat option"
  ao_audio :: nat
  ao_canplaythrough :: Listener
  ao_error :: Listener

text \<open>
  Reading a property of a buffering entry by its key, where the value is used as a
  listener: the keys \<^verbatim>\<open>canplaythrough\<close> and \<^verbatim>\<open>error\<close> hold one, every other key gives
  no listener (\<^verbatim>\<open>undefined\<close>, or a value that is not a function). An object used as a
  key is converted to the string \<^verbatim>\<open>[object Object]\<close>.
\<close>

definition listenerAt :: "AudioObj \<Rightarrow> string \<Rightarrow> Listener option" where
  "listenerAt obj key =
     (if key = ''canplaythrough'' then Some (ao_canplaythrough obj)
      else if key = ''error'' then Some (ao_error obj)
      else None)"

definition objectToString :: "AudioObj \<Rightarrow> string" where
  "objectToString obj = ''[object Object]''"

record MediaLoader =
  audioPool :: "Html5AudioPool option"
  bufferingAudios :: "AudioObj list option"
  disposed :: bool
  elements :: "nat \<Rightarrow> AudioElement"
  promises :: "Promise list"

definition MediaLoader_new :: "real \<Rightarrow> MediaLoader" where
  "MediaLoader_new maxNodes =
     \<lparr>audioPool = Some (Html5AudioPool_new maxNodes), bufferingAudios = Some [],
      disposed = False, elements = (\<lambda>a. newAudio), promises = []\<rparr>"

text \<open>\<^verbatim>\<open>Array.prototype.indexOf\<close> (-1 when absent) and \<^verbatim>\<open>splice(start, 1)\<close>.\<close>

fun indexOf :: "'a list \<Rightarrow> 'a \<Rightarrow> int" where
  "indexOf [] x = -1"
| "indexOf (y # ys) x = (if y = x then 0 else (let i = indexOf ys x in if i < 0 then -1 else i + 1))"

definition splice1 :: "int \<Rightarrow> 'a list \<Rightarrow> 'a list" where
  "splice1 start xs =
     (let n = int (length xs);
          s = (if start < 0 then max (n + start) 0 else min start n)
      in take (nat s) xs @ drop (Suc (nat s)) xs)"

text \<open>
  \<^verbatim>\<open>_cleanUp(audioObj)\<close>:
  \<^verbatim>\<open>['canplaythrough', 'error'].forEach(evt => audioObj.audio.removeEventListener(evt, audioObj[audioObj]));\<close>
  \<^verbatim>\<open>this._bufferingAudios.splice(this._bufferingAudios.indexOf(audioObj), 1);\<close>
\<close>

definition cleanUpEntry :: "AudioObj \<Rightarrow> MediaLoader \<Rightarrow> MediaLoader \<times> JsError option" where
  "cleanUpEntry obj l =
     (let a = ao_audio obj;
          el = foldl (\<lambda>e evt. removeEventListener evt (listenerAt obj (objectToString obj)) e)
                 (elements l a) [''canplaythrough'', ''error''];
          l1 = l\<lparr>elements := (elements l)(a := el)\<rparr>
      in case bufferingAudios l1 of
           None \<Rightarrow> (l1, Some TypeError)
         | Some bs \<Rightarrow> (l1\<lparr>bufferingAudios := Some (splice1 (indexOf bs obj) bs)\<rparr>, None))"

text \<open>Running a callback over a list, stopping at the first exception.\<close>

fun forEachE ::
  "('a \<Rightarrow> MediaLoader \<Rightarrow> MediaLoader \<times> JsError option) \<Rightarrow> 'a list \<Rightarrow> MediaLoader
    \<Rightarrow> MediaLoader \<times> JsError option" where
  "forEachE f [] l = (l, None)"
| "forEachE f (x # xs) l =
     (case f x l of
        (l1, Some e) \<Rightarrow> (l1, Some e)
      | (l1, None) \<Rightarrow> forEachE f xs l1)"

text \<open>
  \<^verbatim>\<open>this._bufferingAudios.forEach(audioObj => this._cleanUp(audioObj))\<close> iterates the
  live array: \<^verbatim>\<open>forEach\<close> visits the indices below the length it read first, and skips
  an index the array no longer has.
\<close>

definition cleanUpAt :: "nat \<Rightarrow> MediaLoader \<Rightarrow> MediaLoader \<times> JsError option" where
  "cleanUpAt k l =
     (case bufferingAudios l of
        None \<Rightarrow> (l, Some TypeError)
      | Some bs \<Rightarrow> if k < length bs then cleanUpEntry (bs ! k) l else (l, None))"

definition removeAudioObjOfUrl :: "string \<Rightarrow> MediaLoader \<Rightarrow> MediaLoader \<times> JsError option" where
  "removeAudioObjOfUrl url l =
     (case bufferingAudios l of
        None \<Rightarrow> (l, Some TypeError)
      | Some bs \<Rightarrow>
          (case find (\<lambda>a. ao_url a = url) bs of
             None \<Rightarrow> (l, None)
           | Some obj \<Rightarrow> cleanUpEntry obj l))"

fun truthy :: "jsval \<Rightarrow> bool" where
  "truthy JUndefined = False"
| "truthy JNull = False"
| "truthy (JBoolean b) = b"
| "truthy (JNumber x) = (x \<noteq> 0)"
| "truthy (JString s) = (s \<noteq> [])"
| "truthy (JFunction f) = True"
| "truthy (JArray xs) = True"

definition releaseUrl :: "string \<Rightarrow> MediaLoader \<Rightarrow> MediaLoader \<times> JsError option" where
  "releaseUrl url l =
     (case audioPool l of
        None \<Rightarrow> (l, Some TypeError)
      | Some pool \<Rightarrow> (l\<lparr>audioPool := Some (releaseForSource url pool)\<rparr>, None))"

text \<open>
  \<^verbatim>\<open>unload(urls)\<close>. The last statement, \<^verbatim>\<open>urls.forEach(url => this._audioPool.releaseForSource(url))\<close>,
  runs whatever \<^verbatim>\<open>urls\<close> is: only an array has \<^verbatim>\<open>forEach\<close>.
\<close>

definition MediaLoader_unload :: "jsval \<Rightarrow> MediaLoader \<Rightarrow> MediaLoader \<times> JsError option" where
  "MediaLoader_unload urls l =
     (let step =
        (if \<not> truthy urls then
           (case bufferingAudios l of
              None \<Rightarrow> (l, Some TypeError)
            | Some bs \<Rightarrow> forEachE cleanUpAt [0..<length bs] l)
         else
           (case urls of
              JString u \<Rightarrow> removeAudioObjOfUrl u l
            | JArray us \<Rightarrow> (if us \<noteq> [] then forEachE removeAudioObjOfUrl us l else (l, None))
            | _ \<Rightarrow> (l, None)))
      in case step of
           (l1, Some e) \<Rightarrow> (l1, Some e)
         | (l1, None) \<Rightarrow>
             (case urls of
                JArray us \<Rightarrow> forEachE releaseUrl us l1
              | _ \<Rightarrow> (l1, Some TypeError)))"

text \<open>
  \<^verbatim>\<open>dispose()\<close>: it iterates a copy of the buffering list. The pool is disposed and the
  loader lets go of it.
\<close>

definition MediaLoader_dispose :: "MediaLoader \<Rightarrow> MediaLoader \<times> JsError option" where
  "MediaLoader_dispose l =
     (if disposed l then (l, None)
      else
        (case bufferingAudios l of
           None \<Rightarrow> (l, Some TypeError)
         | Some bs \<Rightarrow>
             (case forEachE cleanUpEntry bs l of
                (l1, Some e) \<Rightarrow> (l1, Some e)
              | (l1, None) \<Rightarrow>
                  (case audioPool l1 of
                     None \<Rightarrow> (l1\<lparr>bufferingAudios := None\<rparr>, Some TypeError)
                   | Some pool \<Rightarrow>
                       (l1\<lparr>bufferingAudios := None, audioPool := None, disposed := True\<rparr>,
                        None)))))"

text \<open>A promise settles once: resolving or rejecting a settled promise does nothing.\<close>

definition resolve :: "nat \<Rightarrow> DownloadResult \<Rightarrow> MediaLoader \<Rightarrow> MediaLoader" where
  "resolve k r l =
     (if k < length (promises l) \<and> promises l ! k = Pending
      then l\<lparr>promises := (promises l)[k := Resolved r]\<rparr> else l)"

definition reject :: "nat \<Rightarrow> JsError \<Rightarrow> MediaLoader \<Rightarrow> MediaLoader" where
  "reject k e l =
     (if k < length (promises l) \<and> promises l ! k = Pending
      then l\<lparr>promises := (promises l)[k := Rejected e]\<rparr> else l)"

text \<open>The closure \<^verbatim>\<open>onCanPlayThrough\<close> of \<^verbatim>\<open>_load\<close>.\<close>

definition onCanPlayThrough :: "Listener \<Rightarrow> MediaLoader \<Rightarrow> MediaLoader \<times> JsError option" where
  "onCanPlayThrough c l =
     (if disposed l then (l, None)
      else
        (case bufferingAudios l of
           None \<Rightarrow> (l, Some TypeError)
         | Some bs \<Rightarrow>
             (case (case find (\<lambda>obj. ao_audio obj = l_audio c) bs of
                      None \<Rightarrow> (l, None)
                    | Some obj \<Rightarrow> cleanUpEntry obj l) of
                (l1, Some e) \<Rightarrow> (l1, Some e)
              | (l1, None) \<Rightarrow>
                  (resolve (l_promise c)
                     \<lparr>dr_url = l_url c, dr_value = Some (l_audio c), dr_error = None\<rparr> l1,
                   None))))"

text \<open>The closure \<^verbatim>\<open>onError\<close> of \<^verbatim>\<open>_load\<close>, called with the media error.\<close>

definition onError :: "Listener \<Rightarrow> string \<Rightarrow> MediaLoader \<Rightarrow> MediaLoader \<times> JsError option" where
  "onError c err l =
     (if disposed l then (l, None)
      else
        (case bufferingAudios l of
           None \<Rightarrow> (l, Some TypeError)
         | Some bs \<Rightarrow>
             (case (case find (\<lambda>obj. ao_audio obj = l_audio c) bs of
                      None \<Rightarrow> (l, None)
                    | Some obj \<Rightarrow> cleanUpEntry obj l) of
                (l1, Some e) \<Rightarrow> (l1, Some e)
              | (l1, None) \<Rightarrow>
                  (case audioPool l1 of
                     None \<Rightarrow> (l1, Some TypeError)
                   | Some pool \<Rightarrow>
                       (resolve (l_promise c)
                          \<lparr>dr_url = l_url c, dr_value = None, dr_error = Some err\<rparr>
                          (l1\<lparr>audioPool :=
                                Some (destroyAllocatedAudio (l_url c) (l_groupId c) (l_audio c) pool)\<rparr>),
                        None)))))"

text \<open>
  \<^verbatim>\<open>_load(url, groupId)\<close>. The promise's executor runs at once; an exception in it
  rejects the promise. \<^verbatim>\<open>groupId ? ... : ...\<close> takes the group branch for a group id
  that is neither undefined nor 0.
\<close>

definition MediaLoader_load :: "string \<Rightarrow> nat option \<Rightarrow> MediaLoader \<Rightarrow> MediaLoader \<times> nat" where
  "MediaLoader_load url groupId l0 =
     (let k = length (promises l0);
          l = l0\<lparr>promises := promises l0 @ [Pending]\<rparr>
      in case audioPool l of
           None \<Rightarrow> (reject k TypeError l, k)
         | Some pool \<Rightarrow>
             (let (pool1, res) =
                    (case groupId of
                       None \<Rightarrow> allocateForSource url pool
                     | Some g \<Rightarrow>
                         if g \<noteq> 0 then allocateForGroup url g pool
                         else allocateForSource url pool);
                  l1 = l\<lparr>audioPool := Some pool1\<rparr>
              in case res of
                   Inl e \<Rightarrow> (reject k (PoolFailure e) l1, k)
                 | Inr h \<Rightarrow>
                     (let a = audio h;
                          onCPT = \<lparr>l_kind = OnCanPlayThrough, l_url = url, l_groupId = groupId,
                                   l_audio = a, l_promise = k\<rparr>;
                          onErr = \<lparr>l_kind = OnError, l_url = url, l_groupId = groupId,
                                   l_audio = a, l_promise = k\<rparr>;
                          l2 = l1\<lparr>elements := (elements l1)
                                 (a := addEventListener ''error'' onErr
                                         (addEventListener ''canplaythrough'' onCPT (elements l1 a)))\<rparr>
                      in case bufferingAudios l2 of
                           None \<Rightarrow> (reject k TypeError l2, k)
                         | Some bs \<Rightarrow>
                             (let l3 = l2\<lparr>bufferingAudios :=
                                        Some (bs @ [\<lparr>ao_url = url, ao_groupId = groupId, ao_audio = a,
                                                     ao_canplaythrough = onCPT, ao_error = onErr\<rparr>])\<rparr>
                              in if src (elements l3 a) = [] then
                                   (l3\<lparr>elements := (elements l3)
                                        (a := (elements l3 a)\<lparr>src := url,
                                                loadCalls := Suc (loadCalls (elements l3 a))\<rparr>)\<rparr>, k)
                                 else
                                   (let l4 = l3\<lparr>elements := (elements l3)
                                               (a := (elements l3 a)\<lparr>el_currentTime := 0\<rparr>)\<rparr>
                                    in if 3 \<le> readyState (elements l4 a) then
                                         (case onCanPlayThrough onCPT l4 of
                                            (l5, None) \<Rightarrow> (l5, k)
                                          | (l5, Some e) \<Rightarrow> (reject k e l5, k))
                                       else (l4, k))))))"

text \<open>
  The browser firing an event on an element: every listener registered for it runs; an
  exception in a listener is reported and does not reach the others. \<open>err\<close> is the
  media error an \<^verbatim>\<open>error\<close> event carries.
\<close>

definition runListener :: "string \<Rightarrow> Listener \<Rightarrow> MediaLoader \<Rightarrow> MediaLoader" where
  "runListener err c l =
     (case l_kind c of
        OnCanPlayThrough \<Rightarrow> fst (onCanPlayThrough c l)
      | OnError \<Rightarrow> fst (onError c err l))"

definition dispatchEvent :: "string \<Rightarrow> string \<Rightarrow> nat \<Rightarrow> MediaLoader \<Rightarrow> MediaLoader" where
  "dispatchEvent evt err a l =
     foldl (\<lambda>l1 (e, c). if e = evt \<and> (e, c) \<in> set (listeners (elements l1 a))
                          then runListener err c l1 else l1)
       l (listeners (elements l a))"

section \<open>The sound state machine: BaseBuzz, BufferBuzz and MediaBuzz\<close>

text \<open>
  \<^verbatim>\<open>src/core/BufferBuzz.js\<close> and the \<^verbatim>\<open>MediaBuzz\<close> class extend \<^verbatim>\<open>BaseBuzz\<close>, which is
  not among the sources. The record \<open>BaseBuzz\<close> holds the fields of \<^verbatim>\<open>this\<close> that the
  two subclasses read and write (\<open>b_rate\<close> is \<^verbatim>\<open>this._rate\<close>, and so on); \<open>b_now\<close> is
  \<^verbatim>\<open>this._context.currentTime\<close>, the audio clock, which only \<open>advance\<close> moves;
  \<open>b_fired\<close> is the list of events handed to \<^verbatim>\<open>_fire\<close>, oldest first; \<open>b_endTimer\<close> is
  the end timer, \<^verbatim>\<open>this._endTimer\<close>.
\<close>

datatype BuzzState = Idle | Playing | Paused | Destroyed

datatype LoadState = NotLoaded | Loading | Loaded

text \<open>
  The result of a JavaScript division: a division by zero gives \<^verbatim>\<open>Infinity\<close> or
  \<^verbatim>\<open>NaN\<close>, here \<open>NonFinite\<close>.
\<close>

datatype jsnum = Num real | NonFinite

definition jsdiv :: "real \<Rightarrow> real \<Rightarrow> jsnum" where
  "jsdiv a b = (if b = 0 then NonFinite else Num (a / b))"

text \<open>
  A timer armed with \<^verbatim>\<open>setTimeout(this._onEnded, delay)\<close>: the delay in milliseconds,
  and the reading of the clock (in seconds) when it was armed.
\<close>

record Timer =
  t_delay :: jsnum
  t_armedAt :: real

datatype BuzzAction = PlayAction "string option" bool | SeekAction real

record BaseBuzz =
  b_id :: nat
  b_state :: BuzzState
  b_loadState :: LoadState
  b_volume :: real
  b_muted :: bool
  b_rate :: real
  b_loop :: bool
  b_duration :: real
  b_seek :: real
  b_elapsed :: real
  b_rateSeek :: real
  b_startTime :: real
  b_startPos :: real
  b_endPos :: real
  b_now :: real
  b_actionQueue :: "(string \<times> BuzzAction) list"
  b_loadCalls :: nat
  b_fired :: "(string \<times> real list) list"
  b_endTimer :: "Timer option"

text \<open>
  Modelled from the spec: \<^verbatim>\<open>isPlaying\<close>, \<^verbatim>\<open>isPaused\<close>, \<^verbatim>\<open>isLoaded\<close>, \<^verbatim>\<open>_fire\<close>,
  \<^verbatim>\<open>load\<close> and the action queue belong to \<^verbatim>\<open>BaseBuzz\<close> and its collaborators, which
  are not among the sources. The states are the spec's; \<^verbatim>\<open>_fire\<close> hands the event to
  the emitter; the queue keeps one slot per action kind, a later request replacing an
  earlier one of its kind; \<^verbatim>\<open>load\<close> starts loading a sound that is not loaded.
\<close>

definition isPlaying :: "'a BaseBuzz_scheme \<Rightarrow> bool" where
  "isPlaying s = (b_state s = Playing)"

definition isPaused :: "'a BaseBuzz_scheme \<Rightarrow> bool" where
  "isPaused s = (b_state s = Paused)"

definition isLoaded :: "'a BaseBuzz_scheme \<Rightarrow> bool" where
  "isLoaded s = (b_loadState s = Loaded)"

definition fire :: "string \<Rightarrow> real list \<Rightarrow> 'a BaseBuzz_scheme \<Rightarrow> 'a BaseBuzz_scheme" where
  "fire evt args s = s\<lparr>b_fired := b_fired s @ [(evt, args)]\<rparr>"

definition enqueue :: "string \<Rightarrow> BuzzAction \<Rightarrow> 'a BaseBuzz_scheme \<Rightarrow> 'a BaseBuzz_scheme" where
  "enqueue key act s = s\<lparr>b_actionQueue := AList.update key act (b_actionQueue s)\<rparr>"

definition load :: "'a BaseBuzz_scheme \<Rightarrow> 'a BaseBuzz_scheme" where
  "load s =
     (if b_loadState s = NotLoaded
      then s\<lparr>b_loadState := Loading, b_loadCalls := Suc (b_loadCalls s)\<rparr> else s)"

text \<open>The audio clock moving on by \<open>dt\<close> seconds.\<close>

definition advance :: "real \<Rightarrow> 'a BaseBuzz_scheme \<Rightarrow> 'a BaseBuzz_scheme" where
  "advance dt s = s\<lparr>b_now := b_now s + dt\<rparr>"

subsection \<open>BufferBuzz\<close>

text \<open>The \<^verbatim>\<open>AudioBufferSourceNode\<close> as \<^verbatim>\<open>_playNode\<close> sets it up and starts it.\<close>

record BufferSourceNode =
  n_playbackRate :: real
  n_loop :: bool
  n_loopStart :: real
  n_loopEnd :: real
  n_when :: real
  n_offset :: real
  n_duration :: real

record BufferBuzz = BaseBuzz +
  b_sprite :: "(string \<times> real \<times> real) list option"
  b_spriteSound :: "string option"
  b_bufferSourceNode :: "BufferSourceNode option"

text \<open>
  \<^verbatim>\<open>_getTimeVars()\<close>:
  \<^verbatim>\<open>seek = Math.max(0, this._seek > 0 ? this._seek : this._startPos)\<close>,
  \<^verbatim>\<open>duration = this._endPos - this._startPos\<close>,
  \<^verbatim>\<open>timeout = (duration * 1000) / this._rate\<close>.
\<close>

definition getTimeVars :: "'a BaseBuzz_scheme \<Rightarrow> real \<times> real \<times> jsnum" where
  "getTimeVars s =
     (max 0 (if b_seek s > 0 then b_seek s else b_startPos s),
      b_endPos s - b_startPos s,
      jsdiv ((b_endPos s - b_startPos s) * 1000) (b_rate s))"

definition playNode :: "real \<Rightarrow> real \<Rightarrow> BufferBuzz \<Rightarrow> BufferBuzz" where
  "playNode offset duration s =
     s\<lparr>b_bufferSourceNode :=
         Some \<lparr>n_playbackRate = b_rate s, n_loop = b_loop s, n_loopStart = b_startPos s,
               n_loopEnd = b_endPos s, n_when = b_now s, n_offset = offset,
               n_duration = duration\<rparr>\<rparr>"

definition cleanNode :: "BufferBuzz \<Rightarrow> BufferBuzz" where
  "cleanNode s = (case b_bufferSourceNode s of None \<Rightarrow> s | Some n \<Rightarrow> s\<lparr>b_bufferSourceNode := None\<rparr>)"

definition stopNode :: "BufferBuzz \<Rightarrow> BufferBuzz" where
  "stopNode s = (case b_bufferSourceNode s of None \<Rightarrow> s | Some n \<Rightarrow> cleanNode s)"

definition clearEndTimer :: "'a BaseBuzz_scheme \<Rightarrow> 'a BaseBuzz_scheme" where
  "clearEndTimer s = (case b_endTimer s of None \<Rightarrow> s | Some t \<Rightarrow> s\<lparr>b_endTimer := None\<rparr>)"

definition reset :: "BufferBuzz \<Rightarrow> BufferBuzz" where
  "reset s = cleanNode (stopNode (clearEndTimer s))"

definition setTimeout :: "jsnum \<Rightarrow> 'a BaseBuzz_scheme \<Rightarrow> 'a BaseBuzz_scheme" where
  "setTimeout delay s = s\<lparr>b_endTimer := Some \<lparr>t_delay = delay, t_armedAt = b_now s\<rparr>\<rparr>"

text \<open>
  \<^verbatim>\<open>_play(sound, fireEvent = true)\<close>. \<^verbatim>\<open>buzzer._link(this)\<close> registers the sound with
  the engine and does not touch the sound. \<^verbatim>\<open>this._sprite[sound]\<close> is looked up among the
  sprite's own keys: a name that the sprite does not define and that is a member of
  \<^verbatim>\<open>Object.prototype\<close> (such as \<^verbatim>\<open>toString\<close>), for which the source finds the inherited
  member, is outside the model.
\<close>

definition spriteLookup :: "BufferBuzz \<Rightarrow> string \<Rightarrow> (real \<times> real) option" where
  "spriteLookup s name = (case b_sprite s of None \<Rightarrow> None | Some sp \<Rightarrow> map_of sp name)"

definition play :: "string option \<Rightarrow> bool \<Rightarrow> BufferBuzz \<Rightarrow> BufferBuzz" where
  "play sound fireEvent s =
     (if isPlaying s then s
      else if \<not> isLoaded s then load (enqueue ''play'' (PlayAction sound fireEvent) s)
      else
        (let prevSound = b_spriteSound s;
             s1 = s\<lparr>b_spriteSound :=
                    (case sound of
                       None \<Rightarrow> None
                     | Some name \<Rightarrow>
                         if name \<noteq> [] \<and> spriteLookup s name \<noteq> None then Some name else None)\<rparr>;
             s2 = (if \<not> isPaused s1 \<and> b_spriteSound s1 \<noteq> prevSound then s1\<lparr>b_seek := 0\<rparr> else s1);
             s3 = (case b_spriteSound s2 of
                     None \<Rightarrow> s2\<lparr>b_startPos := 0, b_endPos := b_duration s2\<rparr>
                   | Some name \<Rightarrow>
                       (case spriteLookup s2 name of
                          None \<Rightarrow> s2
                        | Some (a, b) \<Rightarrow> s2\<lparr>b_startPos := a, b_endPos := b\<rparr>));
             (seek, duration, timeout) = getTimeVars s3;
             s4 = playNode seek duration s3;
             s5 = setTimeout timeout (s4\<lparr>b_startTime := b_now s4\<rparr>);
             s6 = s5\<lparr>b_state := Playing\<rparr>
         in if fireEvent then fire ''play'' [] s6 else s6))"

text \<open>\<^verbatim>\<open>_onEnded()\<close>, the callback of the end timer.\<close>

definition onEnded :: "BufferBuzz \<Rightarrow> BufferBuzz" where
  "onEnded s =
     (if b_loop s then
        (let s1 = fire ''playend'' [] s;
             s2 = s1\<lparr>b_seek := b_startPos s1, b_rateSeek := 0\<rparr>;
             s3 = s2\<lparr>b_startTime := b_now s2\<rparr>;
             (seek, duration, timeout) = getTimeVars s3;
             s4 = setTimeout (Num duration) s3
         in fire ''playstart'' [] s4)
      else
        (let s1 = s\<lparr>b_seek := 0, b_rateSeek := 0\<rparr>;
             s2 = cleanNode (clearEndTimer s1);
             s3 = s2\<lparr>b_state := Idle\<rparr>
         in fire ''playend'' [] s3))"

text \<open>\<^verbatim>\<open>seek()\<close> with no argument: the current position.\<close>

definition currentSeek :: "'a BaseBuzz_scheme \<Rightarrow> real" where
  "currentSeek s =
     (let realTime = (if isPlaying s then b_now s - b_startTime s else 0);
          rateElapsed = (if b_rateSeek s \<noteq> 0 then b_rateSeek s - b_elapsed s else 0)
      in b_elapsed s + (rateElapsed + realTime * b_rate s))"

text \<open>
  \<^verbatim>\<open>rate(rate)\<close>. With no argument it returns the rate and changes nothing. In the
  playing branch \<^verbatim>\<open>this._bufferSourceNode.playbackRate.value = this._rate\<close> throws when
  there is no node.
\<close>

definition rate :: "jsval \<Rightarrow> BufferBuzz \<Rightarrow> BufferBuzz \<times> JsError option" where
  "rate v s =
     (case v of
        JNumber r \<Rightarrow>
          if r < 0 \<or> r > 5 then (s, None)
          else
            (let s1 = s\<lparr>b_rateSeek := currentSeek s\<rparr>;
                 s2 = s1\<lparr>b_startTime := b_now s1\<rparr>;
                 s3 = s2\<lparr>b_rate := r\<rparr>
             in if isPlaying s3 then
                  (case b_bufferSourceNode s3 of
                     None \<Rightarrow> (s3, Some TypeError)
                   | Some n \<Rightarrow>
                       (let s4 = s3\<lparr>b_bufferSourceNode := Some (n\<lparr>n_playbackRate := b_rate s3\<rparr>)\<rparr>;
                            s5 = clearEndTimer s4;
                            (seek, duration, timeout) = getTimeVars s5;
                            s6 = setTimeout (jsdiv (duration * 1000) \<bar>b_rate s5\<bar>) s5
                        in (fire ''rate'' [b_rate s6] s6, None)))
                else (fire ''rate'' [b_rate s3] s3, None))
      | _ \<Rightarrow> (s, None))"

text \<open>
  Modelled from the spec: \<^verbatim>\<open>_pause(fireEvent)\<close> belongs to \<^verbatim>\<open>BaseBuzz\<close>. The spec:
  pause captures the current playback position as elapsed time, stops the backend node
  (without resetting the position), clears the timer and sets the state \<open>Paused\<close>. The
  backend part is \<^verbatim>\<open>_reset\<close> of \<^verbatim>\<open>BufferBuzz\<close>.
\<close>

definition pause :: "bool \<Rightarrow> BufferBuzz \<Rightarrow> BufferBuzz" where
  "pause fireEvent s =
     (if \<not> isPlaying s then s
      else
        (let pos = currentSeek s;
             s1 = reset s;
             s2 = s1\<lparr>b_elapsed := pos, b_state := Paused\<rparr>
         in if fireEvent then fire ''pause'' [] s2 else s2))"

text \<open>
  \<^verbatim>\<open>seek(seek)\<close> with an argument. \<^verbatim>\<open>this._load()\<close> asks the engine for the buffer.
\<close>

definition seek :: "jsval \<Rightarrow> BufferBuzz \<Rightarrow> BufferBuzz" where
  "seek v s =
     (case v of
        JNumber p \<Rightarrow>
          if p < 0 then s
          else if \<not> isLoaded s then
            (enqueue ''seek'' (SeekAction p) s)\<lparr>b_loadCalls := Suc (b_loadCalls s)\<rparr>
          else if p > b_duration s then s
          else
            (let playing = isPlaying s;
                 s1 = (if playing then pause False s else s);
                 s2 = s1\<lparr>b_elapsed := p\<rparr>;
                 s3 = fire ''seek'' [p] s2
             in if playing then play None False s3 else s3)
      | _ \<Rightarrow> s)"

subsection \<open>MediaBuzz\<close>

text \<open>The HTML5 audio element a \<^verbatim>\<open>MediaBuzz\<close> plays, as far as the class touches it.\<close>

record MediaAudio =
  ma_currentTime :: real
  ma_paused :: bool
  ma_muted :: bool
  ma_volume :: real
  ma_playbackRate :: real

record MediaBuzz = BaseBuzz +
  m_audio :: "MediaAudio option"
  m_engineVolume :: real

definition handleStop :: "MediaBuzz \<Rightarrow> MediaBuzz" where
  "handleStop s =
     (case m_audio s of
        None \<Rightarrow> s
      | Some a \<Rightarrow> s\<lparr>m_audio := Some (a\<lparr>ma_paused := True, ma_currentTime := b_startPos s\<rparr>)\<rparr>)"

text \<open>
  \<^verbatim>\<open>_playNode(cb)\<close>, without the creation of the media element source node. It throws
  when the sound has no audio element. \<^verbatim>\<open>buzzer.volume()\<close> is \<open>m_engineVolume\<close>.
\<close>

definition MediaBuzz_playNode :: "MediaBuzz \<Rightarrow> MediaBuzz \<times> JsError option" where
  "MediaBuzz_playNode s =
     (case m_audio s of
        None \<Rightarrow> (s, Some TypeError)
      | Some a \<Rightarrow>
          (let (seek, duration, timeout) = getTimeVars s in
           (s\<lparr>m_audio := Some (a\<lparr>ma_currentTime := seek, ma_muted := b_muted s,
                                  ma_volume := m_engineVolume s * b_volume s,
                                  ma_playbackRate := b_rate s, ma_paused := False\<rparr>)\<rparr>,
            None)))"

text \<open>
  Modelled from the spec: \<^verbatim>\<open>_stop(fireEvent)\<close> and \<^verbatim>\<open>play()\<close> belong to \<^verbatim>\<open>BaseBuzz\<close>.
  The spec: stop resets the elapsed position to 0, stops the backend node, clears the
  timer and sets the state \<open>Idle\<close>; play is a no-op on a playing sound, queues the
  intent and triggers the load on a sound that is not loaded, and otherwise starts the
  backend node, arms the end timer for \<open>(regionDuration / rate) * 1000\<close> milliseconds,
  sets the state \<open>Playing\<close> and emits \<^verbatim>\<open>play\<close>.
\<close>

definition MediaBuzz_stop :: "bool \<Rightarrow> MediaBuzz \<Rightarrow> MediaBuzz" where
  "MediaBuzz_stop fireEvent s =
     (let s1 = clearEndTimer (handleStop (s\<lparr>b_elapsed := 0\<rparr>));
          s2 = s1\<lparr>b_state := Idle\<rparr>
      in if fireEvent then fire ''stop'' [] s2 else s2)"

definition MediaBuzz_play :: "MediaBuzz \<Rightarrow> MediaBuzz \<times> JsError option" where
  "MediaBuzz_play s =
     (if isPlaying s then (s, None)
      else if \<not> isLoaded s then (load (enqueue ''play'' (PlayAction None True) s), None)
      else
        (case MediaBuzz_playNode s of
           (s1, Some e) \<Rightarrow> (s1, Some e)
         | (s1, None) \<Rightarrow>
             (let (seek, duration, timeout) = getTimeVars s1;
                  s2 = setTimeout timeout (s1\<lparr>b_startTime := b_now s1\<rparr>)
              in (fire ''play'' [] (s2\<lparr>b_state := Playing\<rparr>), None))))"

text \<open>
  \<^verbatim>\<open>MediaBuzz._onEnded()\<close>:
  \<^verbatim>\<open>if (this._loop) { this._fire('playend'); this._stop(false).play(); }\<close>
  \<^verbatim>\<open>else { this._stop(false); this._state = BuzzState.Idle; this._fire('playend'); }\<close>
\<close>

definition MediaBuzz_onEnded :: "MediaBuzz \<Rightarrow> MediaBuzz \<times> JsError option" where
  "MediaBuzz_onEnded s =
     (if b_loop s then MediaBuzz_play (MediaBuzz_stop False (fire ''playend'' [] s))
      else (fire ''playend'' [] ((MediaBuzz_stop False s)\<lparr>b_state := Idle\<rparr>), None))"

subsection \<open>Sounds to run the state machine on\<close>

text \<open>
  A loaded, idle buffer sound of the given duration with the documented defaults
  (volume 1.0, not muted, rate 1, no sprite), and a loaded streaming sound with its
  audio element; the clock reads 0.
\<close>

definition loadedBuzz :: "real \<Rightarrow> bool \<Rightarrow> BufferBuzz" where
  "loadedBuzz duration loop =
     \<lparr>b_id = 1, b_state = Idle, b_loadState = Loaded, b_volume = 1, b_muted = False,
      b_rate = 1, b_loop = loop, b_duration = duration, b_seek = 0, b_elapsed = 0,
      b_rateSeek = 0, b_startTime = 0, b_startPos = 0, b_endPos = 0, b_now = 0,
      b_actionQueue = [], b_loadCalls = 0, b_fired = [], b_endTimer = None,
      b_sprite = None, b_spriteSound = None, b_bufferSourceNode = None\<rparr>"

definition playingMedia :: "real \<Rightarrow> bool \<Rightarrow> MediaBuzz" where
  "playingMedia duration loop =
     \<lparr>b_id = 2, b_state = Playing, b_loadState = Loaded, b_volume = 1, b_muted = False,
      b_rate = 1, b_loop = loop, b_duration = duration, b_seek = 0, b_elapsed = 0,
      b_rateSeek = 0, b_startTime = 0, b_startPos = 0, b_endPos = duration, b_now = duration,
      b_actionQueue = [], b_loadCalls = 0, b_fired = [(''play'', [])],
      b_endTimer = Some \<lparr>t_delay = Num (duration * 1000), t_armedAt = 0\<rparr>,
      m_audio = Some \<lparr>ma_currentTime = duration, ma_paused = False, ma_muted = False,
                      ma_volume = 1, ma_playbackRate = 1\<rparr>,
      m_engineVolume = 1\<rparr>"

text \<open>
  What is left of a timer's delay when the clock reads \<open>now\<close>, in milliseconds.
\<close>

definition timerRemaining :: "Timer \<Rightarrow> real \<Rightarrow> jsnum" where
  "timerRemaining t now =
     (case t_delay t of
        Num d \<Rightarrow> Num (d - (now - t_armedAt t) * 1000)
      | NonFinite \<Rightarrow> NonFinite)"

section \<open>Engine\<close>

text \<open>
  \<^verbatim>\<open>src/Engine.js\<close>. The fields of the record are the fields of the class (\<open>e_state\<close> is
  \<^verbatim>\<open>this._state\<close>, and so on), followed by what the engine hands to its environment:
  \<open>e_handlers\<close> are the subscriptions made with \<^verbatim>\<open>on\<close>, \<open>e_fired\<close> the events given to
  \<^verbatim>\<open>_fire\<close> (oldest first), \<open>e_userInputListeners\<close> whether the user input listeners are
  on the document, and \<open>e_pending\<close> the promises of \<^verbatim>\<open>context.suspend()\<close> and
  \<^verbatim>\<open>context.resume()\<close> that have not settled yet, in the order of the calls.
\<close>

datatype EngineState =
  NotReady | Ready | Suspending | Suspended | Resuming | Destroying | Done | NoAudio

datatype ErrorType = NoAudioErr | LoadErr | PlayErr | EngineErr

datatype EngineEvents = VolumeEv | MuteEv | StopEv | SuspendEv | ResumeEv | ErrorEv | DoneEv

datatype EnginePayload = NoPayload | ErrorInfo ErrorType string | Flag bool | Level real

datatype ContextState = CtxSuspended | CtxRunning | CtxClosed

record AudioContext =
  ctx_state :: ContextState
  ctx_currentTime :: real

datatype ContextOp = SuspendOp | ResumeOp

text \<open>The closures the engine queues: \<^verbatim>\<open>() => this.suspend()\<close> and \<^verbatim>\<open>() => this.resume()\<close>.\<close>

datatype QueuedAction = QueuedSuspend | QueuedResume

record GainNode =
  gain :: real
  connected :: bool

text \<open>The \<^verbatim>\<open>BufferLoader\<close> the engine creates: the urls it has cached, none at first.\<close>

record BufferLoader =
  bl_cached :: "string list"

text \<open>
  A buzz or a sound as the engine holds it: the object (\<open>bz_ref\<close>, its identity, which
  is what \<^verbatim>\<open>indexOf\<close> compares), its id (what \<^verbatim>\<open>x.id() === id\<close> compares) and its
  playback state.
\<close>

record Buzz =
  bz_ref :: nat
  bz_id :: nat
  bz_state :: BuzzState

record Engine =
  e_muted :: bool
  e_volume :: real
  e_maxNodesPerSource :: real
  e_cleanUpInterval :: real
  e_inactiveTime :: real
  e_autoEnable :: bool
  e_intervalId :: "real option"
  e_isAudioAvailable :: bool
  e_state :: EngineState
  e_context :: "AudioContext option"
  e_gainNode :: "GainNode option"
  e_queue :: "(string \<times> (string \<times> QueuedAction) list) list"
  e_buzzesArray :: "Buzz list"
  e_soundsArray :: "Buzz list"
  e_bufferLoader :: "BufferLoader option"
  e_mediaLoader :: "MediaLoader option"
  e_handlers :: "(EngineEvents \<times> nat) list"
  e_fired :: "(EngineEvents \<times> EnginePayload) list"
  e_userInputListeners :: bool
  e_pending :: "ContextOp list"

text \<open>The engine as the class's field initialisers and constructor leave it.\<close>

definition Engine_new :: Engine where
  "Engine_new =
     \<lparr>e_muted = False, e_volume = 1, e_maxNodesPerSource = 10, e_cleanUpInterval = 5,
      e_inactiveTime = 2, e_autoEnable = True, e_intervalId = None,
      e_isAudioAvailable = False, e_state = NotReady, e_context = None, e_gainNode = None,
      e_queue = [], e_buzzesArray = [], e_soundsArray = [], e_bufferLoader = None,
      e_mediaLoader = None, e_handlers = [], e_fired = [], e_userInputListeners = False,
      e_pending = []\<rparr>"

definition engineFire :: "EngineEvents \<Rightarrow> EnginePayload \<Rightarrow> Engine \<Rightarrow> Engine" where
  "engineFire evt payload e = e\<lparr>e_fired := e_fired e @ [(evt, payload)]\<rparr>"

text \<open>
  \<^verbatim>\<open>typeof h === 'function' && this.on(evt, h)\<close>, and below
  \<^verbatim>\<open>typeof x === 'number' && (...)\<close> and \<^verbatim>\<open>typeof x === 'boolean' && (...)\<close>.
\<close>

definition engineOn :: "EngineEvents \<Rightarrow> jsval \<Rightarrow> Engine \<Rightarrow> Engine" where
  "engineOn evt h e =
     (case h of JFunction f \<Rightarrow> e\<lparr>e_handlers := e_handlers e @ [(evt, f)]\<rparr> | _ \<Rightarrow> e)"

text \<open>The options object of \<^verbatim>\<open>setup(args)\<close>; a missing option is \<open>JUndefined\<close>.\<close>

record SetupArgs =
  a_volume :: jsval
  a_muted :: jsval
  a_maxNodesPerSource :: jsval
  a_cleanUpInterval :: jsval
  a_autoEnable :: jsval
  a_onstop :: jsval
  a_onmute :: jsval
  a_onvolume :: jsval
  a_onsuspend :: jsval
  a_onresume :: jsval
  a_onerror :: jsval
  a_ondone :: jsval

definition noArgs :: SetupArgs where
  "noArgs =
     \<lparr>a_volume = JUndefined, a_muted = JUndefined, a_maxNodesPerSource = JUndefined,
      a_cleanUpInterval = JUndefined, a_autoEnable = JUndefined, a_onstop = JUndefined,
      a_onmute = JUndefined, a_onvolume = JUndefined, a_onsuspend = JUndefined,
      a_onresume = JUndefined, a_onerror = JUndefined, a_ondone = JUndefined\<rparr>"

text \<open>
  \<^verbatim>\<open>setup(args)\<close>. \<open>getContext\<close> is the result of \<^verbatim>\<open>utility.getContext()\<close>, \<open>None\<close>
  when the platform has no Web Audio. The name is \<open>Engine_setup\<close>, as \<open>setup\<close> is a
  keyword of the proof assistant.
\<close>

definition whenNumber :: "jsval \<Rightarrow> (real \<Rightarrow> Engine \<Rightarrow> Engine) \<Rightarrow> Engine \<Rightarrow> Engine" where
  "whenNumber v f e = (case v of JNumber x \<Rightarrow> f x e | _ \<Rightarrow> e)"

definition whenBoolean :: "jsval \<Rightarrow> (bool \<Rightarrow> Engine \<Rightarrow> Engine) \<Rightarrow> Engine \<Rightarrow> Engine" where
  "whenBoolean v f e = (case v of JBoolean b \<Rightarrow> f b e | _ \<Rightarrow> e)"

definition readOptions :: "SetupArgs \<Rightarrow> Engine \<Rightarrow> Engine" where
  "readOptions a e =
     (let e1 = whenNumber (a_volume a)
                 (\<lambda>v e. if 0 \<le> v \<and> v \<le> 1 then e\<lparr>e_volume := v\<rparr> else e) e;
          e2 = whenBoolean (a_muted a) (\<lambda>b e. e\<lparr>e_muted := b\<rparr>) e1;
          e3 = whenNumber (a_maxNodesPerSource a) (\<lambda>n e. e\<lparr>e_maxNodesPerSource := n\<rparr>) e2;
          e4 = whenNumber (a_cleanUpInterval a) (\<lambda>n e. e\<lparr>e_cleanUpInterval := n\<rparr>) e3;
          e5 = whenBoolean (a_autoEnable a) (\<lambda>b e. e\<lparr>e_autoEnable := b\<rparr>) e4
      in engineOn DoneEv (a_ondone a)
           (engineOn ErrorEv (a_onerror a)
             (engineOn ResumeEv (a_onresume a)
               (engineOn SuspendEv (a_onsuspend a)
                 (engineOn VolumeEv (a_onvolume a)
                   (engineOn MuteEv (a_onmute a)
                     (engineOn StopEv (a_onstop a) e5)))))))"

definition Engine_setup :: "AudioContext option \<Rightarrow> SetupArgs option \<Rightarrow> Engine \<Rightarrow> Engine" where
  "Engine_setup getContext args e =
     (if e_state e \<noteq> NotReady then e
      else
        (let e1 = e\<lparr>e_context := getContext\<rparr>;
             e2 = e1\<lparr>e_isAudioAvailable := (e_context e1 \<noteq> None)\<rparr>
         in case e_context e2 of
              None \<Rightarrow>
                engineFire ErrorEv (ErrorInfo NoAudioErr ''Web Audio API is not available'')
                  (e2\<lparr>e_state := NoAudio\<rparr>)
            | Some ctx \<Rightarrow>
                (let e3 = readOptions (case args of None \<Rightarrow> noArgs | Some a \<Rightarrow> a) e2;
                     e4 = e3\<lparr>e_bufferLoader := Some \<lparr>bl_cached = []\<rparr>\<rparr>;
                     e5 = e4\<lparr>e_mediaLoader := Some (MediaLoader_new (e_maxNodesPerSource e4))\<rparr>;
                     e6 = (if e_autoEnable e5 \<and> ctx_state ctx = CtxSuspended
                           then e5\<lparr>e_userInputListeners := True\<rparr> else e5);
                     e7 = e6\<lparr>e_gainNode :=
                              Some \<lparr>gain = (if e_muted e6 then 0 else e_volume e6),
                                    connected = True\<rparr>\<rparr>;
                     e8 = e7\<lparr>e_intervalId := Some (e_cleanUpInterval e7 * 60 * 1000)\<rparr>
                 in e8\<lparr>e_state := (if ctx_state ctx \<noteq> CtxSuspended then Ready else Suspended)\<rparr>)))"

text \<open>
  Modelled from the spec: the \<^verbatim>\<open>Buzz\<close> and \<^verbatim>\<open>Sound\<close> classes are not among the sources;
  \<^verbatim>\<open>stop()\<close> of a sound sets its state \<open>Idle\<close>, and \<^verbatim>\<open>play()\<close> of a sound whose audio
  is loaded sets its state \<open>Playing\<close>.
\<close>

definition Buzz_stop :: "Buzz \<Rightarrow> Buzz" where
  "Buzz_stop b = b\<lparr>bz_state := Idle\<rparr>"


text \<open>
  \<^verbatim>\<open>const sound = this.sound(id); sound && sound.stop()\<close>, and the same with
  \<^verbatim>\<open>play()\<close>: \<^verbatim>\<open>sound(id)\<close> finds the first entry of \<^verbatim>\<open>_soundsArray\<close> with that id.
\<close>

fun stopFirst :: "real \<Rightarrow> Buzz list \<Rightarrow> Buzz list" where
  "stopFirst n [] = []"
| "stopFirst n (b # bs) = (if real (bz_id b) = n then Buzz_stop b # bs else b # stopFirst n bs)"




text \<open>
  \<^verbatim>\<open>stop(id)\<close>: with a number, the sound of that id is stopped; otherwise
  \<^verbatim>\<open>this.buzzes().forEach(buzz => buzz.stop())\<close> stops the buzzes, the entries of
  \<^verbatim>\<open>_buzzesArray\<close>, and the \<^verbatim>\<open>stop\<close> event is fired; \<^verbatim>\<open>_soundsArray\<close> is not read.
\<close>

definition Engine_stop :: "jsval \<Rightarrow> Engine \<Rightarrow> Engine" where
  "Engine_stop sid e =
     (case sid of
        JNumber n \<Rightarrow> e\<lparr>e_soundsArray := stopFirst n (e_soundsArray e)\<rparr>
      | _ \<Rightarrow> engineFire StopEv NoPayload (e\<lparr>e_buzzesArray := map Buzz_stop (e_buzzesArray e)\<rparr>))"


text \<open>
  Modelled from the spec: the \<^verbatim>\<open>Queue\<close> utility is not among the sources. The spec:
  \<^verbatim>\<open>add(phase, key, fn)\<close>, \<^verbatim>\<open>run(phase)\<close>, \<^verbatim>\<open>remove(phase)\<close>, for execution deferred
  until a phase; one slot per key. \<^verbatim>\<open>run\<close> is \<open>queueRun\<close> below: it takes the actions
  of the phase out of the queue and runs them in the order they were added.
\<close>

definition queueAdd ::
  "string \<Rightarrow> string \<Rightarrow> QueuedAction \<Rightarrow> (string \<times> (string \<times> QueuedAction) list) list
    \<Rightarrow> (string \<times> (string \<times> QueuedAction) list) list" where
  "queueAdd phase key act q =
     AList.update phase
       (AList.update key act (case map_of q phase of None \<Rightarrow> [] | Some acts \<Rightarrow> acts)) q"


text \<open>
  \<^verbatim>\<open>this._context.suspend()\<close> and \<^verbatim>\<open>this._context.resume()\<close> return a promise; calling
  them on a missing context throws.
\<close>

definition contextCall :: "ContextOp \<Rightarrow> Engine \<Rightarrow> Engine \<times> JsError option" where
  "contextCall op e =
     (case e_context e of
        None \<Rightarrow> (e, Some TypeError)
      | Some ctx \<Rightarrow> (e\<lparr>e_pending := e_pending e @ [op]\<rparr>, None))"

text \<open>\<^verbatim>\<open>suspend()\<close>, up to the call of \<^verbatim>\<open>this._context.suspend()\<close>.\<close>

definition Engine_suspend :: "Engine \<Rightarrow> Engine \<times> JsError option" where
  "Engine_suspend e =
     (if e_state e = Resuming then
        (e\<lparr>e_queue := queueAdd ''after-resume'' ''suspend'' QueuedSuspend (e_queue e)\<rparr>, None)
      else if e_state e \<noteq> Ready then (e, None)
      else
        (let e1 = Engine_stop JUndefined e;
             e2 = e1\<lparr>e_state := Suspending\<rparr>
         in contextCall SuspendOp e2))"











text \<open>
  The engine and its context agree: a context operation is in flight exactly while the
  engine is in the matching transitional state, and never more than one.
\<close>

definition inStep :: "Engine \<Rightarrow> bool" where
  "inStep e =
     (e_context e \<noteq> None \<and>
      (e_pending e = [] \<and> e_state e \<noteq> Suspending \<and> e_state e \<noteq> Resuming
       \<or> e_pending e = [SuspendOp] \<and> e_state e = Suspending
       \<or> e_pending e = [ResumeOp] \<and> e_state e = Resuming))"



section \<open>Properties of the pool\<close>

lemma liveHandles_allocateForSource:
  "liveHandles (fst (allocateForSource url p)) url =
     (if real (liveHandles p url) < maxNodesPerSource p then Suc (liveHandles p url)
      else liveHandles p url)"
  by (simp add: allocateForSource_def liveHandles_def totalNodes_def emptyNodes_def Let_def
        update_conv' split: option.splits)

lemma maxNodes_allocateForSource:
  "maxNodesPerSource (fst (allocateForSource url p)) = maxNodesPerSource p"
  by (simp add: allocateForSource_def Let_def)

lemma maxNodes_allocateForSource_calls:
  "maxNodesPerSource (fst (allocateForSource_calls n url p)) = maxNodesPerSource p"
  by (induction n arbitrary: p)
     (simp_all add: split_beta Let_def maxNodes_allocateForSource)

lemma liveHandles_step_bounded:
  assumes "maxNodesPerSource p = real m" and "liveHandles p url \<le> m"
  shows "liveHandles (fst (allocateForSource url p)) url \<le> m"
  using assms by (simp add: liveHandles_allocateForSource)

lemma liveHandles_calls_bounded:
  "maxNodesPerSource p = real m \<Longrightarrow> liveHandles p url \<le> m \<Longrightarrow>
   liveHandles (fst (allocateForSource_calls n url p)) url \<le> m"
proof (induction n arbitrary: p)
  case 0
  then show ?case by simp
next
  case (Suc n)
  let ?p1 = "fst (allocateForSource url p)"
  have "maxNodesPerSource ?p1 = real m"
    using Suc.prems(1) by (simp add: maxNodes_allocateForSource)
  moreover have "liveHandles ?p1 url \<le> m"
    using Suc.prems by (rule liveHandles_step_bounded)
  ultimately have "liveHandles (fst (allocateForSource_calls n url ?p1)) url \<le> m"
    by (rule Suc.IH)
  then show ?case by (simp add: split_beta Let_def)
qed

lemma allocateForSource_at_max:
  "maxNodesPerSource p \<le> real (liveHandles p url) \<Longrightarrow>
   snd (allocateForSource url p) = Inl (PoolExhausted url)"
  by (simp add: allocateForSource_def liveHandles_def emptyNodes_def Let_def
        split: option.splits)

text \<open>
  C1. For every sequence of \<open>allocateForSource\<close> calls on one resource url, starting
  from a pool that holds at most the configured maximum of handles for the url (a new
  pool holds none), the number of live handles for the url (unallocated plus all
  allocated) never exceeds the maximum, a number \<open>m\<close> of handles; and a call made when
  the maximum is already reached fails with \<open>PoolExhausted\<close> naming the resource and
  creates no handle.
\<close>

theorem allocateForSource_never_exceeds_maximum:
  "(maxNodesPerSource p = real m \<and> liveHandles p url \<le> m \<longrightarrow>
      liveHandles (fst (allocateForSource_calls n url p)) url \<le> m) \<and>
   (maxNodesPerSource p \<le> real (liveHandles p url) \<longrightarrow>
      snd (allocateForSource url p) = Inl (PoolExhausted url) \<and>
      liveHandles (fst (allocateForSource url p)) url = liveHandles p url)"
  using liveHandles_calls_bounded [of p m url n] allocateForSource_at_max [of p url]
  by (simp add: liveHandles_allocateForSource)

theorem allocateForSource_never_exceeds_maximum_witness:
  "maxNodesPerSource (Html5AudioPool_new 2) = real 2 \<and>
   liveHandles (Html5AudioPool_new 2) ''X'' \<le> 2 \<and>
   liveHandles (fst (allocateForSource_calls 3 ''X'' (Html5AudioPool_new 2))) ''X'' \<le> 2 \<and>
   snd (allocateForSource_calls 3 ''X'' (Html5AudioPool_new 2)) =
     [Inr \<lparr>audio = 0, soundId = None\<rparr>, Inr \<lparr>audio = 1, soundId = None\<rparr>,
      Inl (PoolExhausted ''X'')] \<and>
   maxNodesPerSource (fst (allocateForSource_calls 2 ''X'' (Html5AudioPool_new 2)))
     \<le> real (liveHandles (fst (allocateForSource_calls 2 ''X'' (Html5AudioPool_new 2))) ''X'') \<and>
   snd (allocateForSource ''X'' (fst (allocateForSource_calls 2 ''X'' (Html5AudioPool_new 2)))) =
     Inl (PoolExhausted ''X'') \<and>
   maxNodesPerSource poolAtLimit \<le> real (liveHandles poolAtLimit ''url1'') \<and>
   snd (allocateForSource ''url1'' poolAtLimit) = Inl (PoolExhausted ''url1'') \<and>
   liveHandles (fst (allocateForSource ''url1'' poolAtLimit)) ''url1'' = 2"
  using allocateForSource_never_exceeds_maximum [of "Html5AudioPool_new 2" 2 "''X''" 3]
    allocateForSource_never_exceeds_maximum
      [of "fst (allocateForSource_calls 2 ''X'' (Html5AudioPool_new 2))" 2 "''X''" 0]
    allocateForSource_never_exceeds_maximum [of poolAtLimit 2 "''url1''" 0]
  by (simp add: eval_nat_numeral allocateForSource_def Html5AudioPool_new_def liveHandles_def
        totalNodes_def emptyNodes_def poolAtLimit_def Let_def)

section \<open>Properties of the sound state machine\<close>

lemmas buzz_defs = loadedBuzz_def play_def playNode_def getTimeVars_def setTimeout_def
  clearEndTimer_def cleanNode_def stopNode_def isPlaying_def isPaused_def isLoaded_def fire_def
  enqueue_def load_def advance_def jsdiv_def spriteLookup_def Let_def

lemma play_arms_region_timer:
  assumes "\<not> isPlaying s" and "isLoaded s" and "b_rate s \<noteq> 0"
  shows "b_endTimer (play sound ev s) =
           Some \<lparr>t_delay = Num ((b_endPos (play sound ev s) - b_startPos (play sound ev s))
                                  / b_rate s * 1000),
                 t_armedAt = b_now s\<rparr>"
  using assms
  by (simp add: play_def Let_def getTimeVars_def setTimeout_def playNode_def fire_def jsdiv_def
        split: option.splits prod.splits)

lemma onEnded_loop_timer:
  "b_loop s \<Longrightarrow> b_endTimer (onEnded s) =
     Some \<lparr>t_delay = Num (b_endPos s - b_startPos s), t_armedAt = b_now s\<rparr>"
  by (simp add: onEnded_def Let_def getTimeVars_def setTimeout_def fire_def)

text \<open>
  C2. \<^verbatim>\<open>_play\<close> arms the end timer with \<^verbatim>\<open>timeout\<close>, that is
  \<open>(regionDuration / rate) * 1000\<close> milliseconds (lemma \<open>play_arms_region_timer\<close>). The
  looping branch of \<^verbatim>\<open>_onEnded\<close> destructures \<^verbatim>\<open>[, duration]\<close> and arms the timer with
  the region duration in seconds (lemma \<open>onEnded_loop_timer\<close>). For a looping sound of
  2 seconds at rate 1: playing arms 2000 ms, the refiring timer arms 2 ms.
\<close>

theorem onEnded_rearms_with_seconds:
  "b_endTimer (play None True (loadedBuzz 2 True)) =
     Some \<lparr>t_delay = Num (2 / 1 * 1000), t_armedAt = 0\<rparr> \<and>
   b_loop (advance 2 (play None True (loadedBuzz 2 True))) \<and>
   b_endPos (advance 2 (play None True (loadedBuzz 2 True)))
     - b_startPos (advance 2 (play None True (loadedBuzz 2 True))) = 2 \<and>
   b_rate (advance 2 (play None True (loadedBuzz 2 True))) = 1 \<and>
   b_endTimer (onEnded (advance 2 (play None True (loadedBuzz 2 True)))) =
     Some \<lparr>t_delay = Num 2, t_armedAt = 2\<rparr> \<and>
   Num 2 \<noteq> Num (2 / 1 * 1000)"
  by (simp add: buzz_defs onEnded_def)

text \<open>
  C3, as stated, fails on the streaming backend: a looping \<^verbatim>\<open>MediaBuzz\<close> whose playback
  ends emits \<^verbatim>\<open>playend\<close> and then runs \<^verbatim>\<open>this._stop(false).play()\<close>. It is stopped
  (state \<open>Idle\<close>) and played again, the restart is announced by the event of
  \<^verbatim>\<open>play\<close>, and no \<^verbatim>\<open>playstart\<close> is emitted.
\<close>

theorem media_loop_restarts_through_idle:
  "b_loop (playingMedia 2 True) \<and> b_state (playingMedia 2 True) = Playing \<and>
   b_fired (fst (MediaBuzz_onEnded (playingMedia 2 True))) =
     [(''play'', []), (''playend'', []), (''play'', [])] \<and>
   (''playstart'', []) \<notin> set (b_fired (fst (MediaBuzz_onEnded (playingMedia 2 True)))) \<and>
   b_state (MediaBuzz_stop False (fire ''playend'' [] (playingMedia 2 True))) = Idle"
  by (simp add: buzz_defs playingMedia_def handleStop_def MediaBuzz_playNode_def MediaBuzz_stop_def
        MediaBuzz_play_def MediaBuzz_onEnded_def)

text \<open>
  C3 (amended). When the end timer fires for a buffer sound with loop = true, the sound
  emits \<^verbatim>\<open>playend\<close>, resets its seek position to the region start, rearms the timer
  (a timer armed at the current reading of the clock), emits \<^verbatim>\<open>playstart\<close> and keeps its
  state, so a playing sound stays \<open>Playing\<close>; with loop = false it resets its position
  bookkeeping, clears the timer, tears down the node, becomes \<open>Idle\<close> and emits only
  \<^verbatim>\<open>playend\<close>. When playback ends for a streaming sound with loop = false, the sound is
  stopped without a stop event, becomes \<open>Idle\<close> and emits only \<^verbatim>\<open>playend\<close>; with
  loop = true it emits \<^verbatim>\<open>playend\<close>, is stopped (state \<open>Idle\<close>) and played again: a
  loaded sound ends in \<open>Playing\<close>, and the only event after \<^verbatim>\<open>playend\<close> is the one
  \<^verbatim>\<open>play\<close> emits.
\<close>

theorem onEnded_buffer_and_media:
  "(b_loop s \<longrightarrow>
      b_fired (onEnded s) = b_fired s @ [(''playend'', []), (''playstart'', [])] \<and>
      b_seek (onEnded s) = b_startPos s \<and>
      map_option t_armedAt (b_endTimer (onEnded s)) = Some (b_now s) \<and>
      b_state (onEnded s) = b_state s) \<and>
   (\<not> b_loop s \<longrightarrow>
      b_seek (onEnded s) = 0 \<and> b_rateSeek (onEnded s) = 0 \<and>
      b_endTimer (onEnded s) = None \<and> b_bufferSourceNode (onEnded s) = None \<and>
      b_state (onEnded s) = Idle \<and>
      b_fired (onEnded s) = b_fired s @ [(''playend'', [])]) \<and>
   (\<not> b_loop m \<longrightarrow>
      snd (MediaBuzz_onEnded m) = None \<and>
      b_elapsed (fst (MediaBuzz_onEnded m)) = 0 \<and>
      map_option ma_paused (m_audio (fst (MediaBuzz_onEnded m))) =
        map_option (\<lambda>a. True) (m_audio m) \<and>
      b_state (fst (MediaBuzz_onEnded m)) = Idle \<and>
      b_fired (fst (MediaBuzz_onEnded m)) = b_fired m @ [(''playend'', [])]) \<and>
   (b_loop m \<and> isLoaded m \<and> m_audio m \<noteq> None \<longrightarrow>
      snd (MediaBuzz_onEnded m) = None \<and>
      b_state (MediaBuzz_stop False (fire ''playend'' [] m)) = Idle \<and>
      b_state (fst (MediaBuzz_onEnded m)) = Playing \<and>
      b_fired (fst (MediaBuzz_onEnded m)) = b_fired m @ [(''playend'', []), (''play'', [])])"
proof (intro conjI impI)
  assume "b_loop s"
  then show "b_fired (onEnded s) = b_fired s @ [(''playend'', []), (''playstart'', [])]"
    and "b_seek (onEnded s) = b_startPos s"
    and "map_option t_armedAt (b_endTimer (onEnded s)) = Some (b_now s)"
    and "b_state (onEnded s) = b_state s"
    by (simp_all add: onEnded_def Let_def getTimeVars_def setTimeout_def fire_def)
next
  assume "\<not> b_loop s"
  then show "b_seek (onEnded s) = 0" and "b_rateSeek (onEnded s) = 0"
    and "b_endTimer (onEnded s) = None" and "b_bufferSourceNode (onEnded s) = None"
    and "b_state (onEnded s) = Idle"
    and "b_fired (onEnded s) = b_fired s @ [(''playend'', [])]"
    by (simp_all add: onEnded_def Let_def clearEndTimer_def cleanNode_def fire_def
          split: option.splits)
next
  assume "\<not> b_loop m"
  then show "snd (MediaBuzz_onEnded m) = None"
    and "b_elapsed (fst (MediaBuzz_onEnded m)) = 0"
    and "map_option ma_paused (m_audio (fst (MediaBuzz_onEnded m))) =
        map_option (\<lambda>a. True) (m_audio m)"
    and "b_state (fst (MediaBuzz_onEnded m)) = Idle"
    and "b_fired (fst (MediaBuzz_onEnded m)) = b_fired m @ [(''playend'', [])]"
    by (simp_all add: MediaBuzz_onEnded_def MediaBuzz_stop_def handleStop_def fire_def Let_def
          clearEndTimer_def split: option.splits)
next
  assume h: "b_loop m \<and> isLoaded m \<and> m_audio m \<noteq> None"
  then obtain a where a: "m_audio m = Some a" by auto
  from h a show "snd (MediaBuzz_onEnded m) = None"
    and "b_state (MediaBuzz_stop False (fire ''playend'' [] m)) = Idle"
    and "b_state (fst (MediaBuzz_onEnded m)) = Playing"
    and "b_fired (fst (MediaBuzz_onEnded m)) = b_fired m @ [(''playend'', []), (''play'', [])]"
    by (simp_all add: MediaBuzz_onEnded_def MediaBuzz_stop_def MediaBuzz_play_def
          MediaBuzz_playNode_def handleStop_def fire_def isPlaying_def isLoaded_def
          getTimeVars_def clearEndTimer_def setTimeout_def Let_def
          split: option.splits prod.splits)
qed

theorem onEnded_buffer_and_media_witness:
  "b_loop (advance 2 (play None True (loadedBuzz 2 True))) \<and>
   b_state (advance 2 (play None True (loadedBuzz 2 True))) = Playing \<and>
   b_state (onEnded (advance 2 (play None True (loadedBuzz 2 True)))) = Playing \<and>
   b_fired (onEnded (advance 2 (play None True (loadedBuzz 2 True)))) =
     [(''play'', []), (''playend'', []), (''playstart'', [])] \<and>
   \<not> b_loop (advance 2 (play None True (loadedBuzz 2 False))) \<and>
   b_state (onEnded (advance 2 (play None True (loadedBuzz 2 False)))) = Idle \<and>
   b_fired (onEnded (advance 2 (play None True (loadedBuzz 2 False)))) =
     [(''play'', []), (''playend'', [])] \<and>
   \<not> b_loop (playingMedia 2 False) \<and>
   b_state (fst (MediaBuzz_onEnded (playingMedia 2 False))) = Idle \<and>
   b_fired (fst (MediaBuzz_onEnded (playingMedia 2 False))) = [(''play'', []), (''playend'', [])] \<and>
   b_loop (playingMedia 2 True) \<and> isLoaded (playingMedia 2 True) \<and>
   m_audio (playingMedia 2 True) \<noteq> None \<and>
   b_state (fst (MediaBuzz_onEnded (playingMedia 2 True))) = Playing"
  using onEnded_buffer_and_media
      [of "advance 2 (play None True (loadedBuzz 2 True))" "playingMedia 2 True"]
    onEnded_buffer_and_media
      [of "advance 2 (play None True (loadedBuzz 2 False))" "playingMedia 2 False"]
  by (simp add: buzz_defs onEnded_def playingMedia_def handleStop_def MediaBuzz_playNode_def MediaBuzz_stop_def
        MediaBuzz_play_def MediaBuzz_onEnded_def)

text \<open>
  C4, as stated, fails at v = 0: the guard is \<^verbatim>\<open>rate < 0 || rate > 5\<close>, so \<^verbatim>\<open>rate(0)\<close>
  is accepted, stored and announced.
\<close>

theorem rate_accepts_zero:
  "fst (rate (JNumber 0) (loadedBuzz 2 False)) \<noteq> loadedBuzz 2 False \<and>
   b_rate (loadedBuzz 2 False) = 1 \<and>
   b_rate (fst (rate (JNumber 0) (loadedBuzz 2 False))) = 0 \<and>
   b_fired (loadedBuzz 2 False) = [] \<and>
   b_fired (fst (rate (JNumber 0) (loadedBuzz 2 False))) = [(''rate'', [0])]"
  by (simp add: buzz_defs rate_def currentSeek_def)

text \<open>
  C4 (amended). For every sound and every value that is not a number, or is a number
  below 0 or above 5, \<^verbatim>\<open>rate(v)\<close> changes nothing and fires no event. For every number
  v with 0 \<le> v \<le> 5, zero included, \<^verbatim>\<open>rate(v)\<close> stores v as the new rate and fires
  the \<^verbatim>\<open>rate\<close> event with it (a playing sound has its buffer source node).
\<close>

theorem rate_range:
  "(typeof v \<noteq> TyNumber \<longrightarrow> rate v s = (s, None)) \<and>
   (r < 0 \<or> 5 < r \<longrightarrow> rate (JNumber r) s = (s, None)) \<and>
   (0 \<le> r \<and> r \<le> 5 \<and> (isPlaying s \<longrightarrow> b_bufferSourceNode s \<noteq> None) \<longrightarrow>
      snd (rate (JNumber r) s) = None \<and>
      b_rate (fst (rate (JNumber r) s)) = r \<and>
      b_fired (fst (rate (JNumber r) s)) = b_fired s @ [(''rate'', [r])])"
proof (intro conjI impI)
  assume "typeof v \<noteq> TyNumber"
  then show "rate v s = (s, None)" by (cases v) (simp_all add: rate_def)
next
  assume "r < 0 \<or> 5 < r"
  then show "rate (JNumber r) s = (s, None)" by (auto simp: rate_def)
next
  assume h: "0 \<le> r \<and> r \<le> 5 \<and> (isPlaying s \<longrightarrow> b_bufferSourceNode s \<noteq> None)"
  then show "snd (rate (JNumber r) s) = None"
    and "b_rate (fst (rate (JNumber r) s)) = r"
    and "b_fired (fst (rate (JNumber r) s)) = b_fired s @ [(''rate'', [r])]"
    by (auto simp: rate_def Let_def isPlaying_def fire_def setTimeout_def clearEndTimer_def
          getTimeVars_def split: option.splits prod.splits)
qed

theorem rate_range_witness:
  "typeof (JString ''fast'') \<noteq> TyNumber \<and>
   rate (JString ''fast'') (loadedBuzz 2 False) = (loadedBuzz 2 False, None) \<and>
   rate JUndefined (loadedBuzz 2 False) = (loadedBuzz 2 False, None) \<and>
   rate (JNumber (-1)) (loadedBuzz 2 False) = (loadedBuzz 2 False, None) \<and>
   rate (JNumber 6) (loadedBuzz 2 False) = (loadedBuzz 2 False, None) \<and>
   (isPlaying (play None True (loadedBuzz 2 False)) \<and>
    b_bufferSourceNode (play None True (loadedBuzz 2 False)) \<noteq> None) \<and>
   b_rate (fst (rate (JNumber 2) (play None True (loadedBuzz 2 False)))) = 2 \<and>
   b_fired (fst (rate (JNumber 2) (play None True (loadedBuzz 2 False)))) =
     [(''play'', []), (''rate'', [2])]"
  using rate_range [of "JString ''fast''" "loadedBuzz 2 False" "-1"]
    rate_range [of JUndefined "loadedBuzz 2 False" 6]
    rate_range [of JNull "play None True (loadedBuzz 2 False)" 2]
  by (simp add: buzz_defs rate_def currentSeek_def)

text \<open>
  C5, as stated, fails once part of the region has played: \<^verbatim>\<open>rate\<close> rearms the timer
  for the whole region duration. A sound of 10 seconds playing at rate 1 for 8 seconds
  has 2000 ms left on its timer; \<^verbatim>\<open>rate(2)\<close> arms 5000 ms, not 1000 ms.
\<close>

theorem rate_does_not_halve_remaining:
  "isPlaying (advance 8 (play None True (loadedBuzz 10 False))) \<and>
   map_option (\<lambda>t. timerRemaining t 8) (b_endTimer (advance 8 (play None True (loadedBuzz 10 False))))
     = Some (Num 2000) \<and>
   map_option (\<lambda>t. timerRemaining t 8)
     (b_endTimer (fst (rate (JNumber 2) (advance 8 (play None True (loadedBuzz 10 False))))))
     = Some (Num 5000) \<and>
   Num 5000 \<noteq> Num (2000 / 2)"
  by (simp add: buzz_defs rate_def currentSeek_def timerRemaining_def)

text \<open>
  C5 (amended). Calling \<^verbatim>\<open>rate(v)\<close> with 0 < v \<le> 5 on a playing sound captures the
  current computed seek position as the rate anchor, resets the playback time base to
  the clock, sets the node's playback rate, and rearms the end timer for the duration of
  the whole region scaled by the new rate, \<open>regionDuration * 1000 / v\<close> milliseconds,
  whatever part of the region has played; \<^verbatim>\<open>rate(2)\<close> arms half the region's duration.
\<close>

theorem rate_rearms_full_region:
  "isPlaying s \<and> b_bufferSourceNode s = Some n \<and> 0 < r \<and> r \<le> 5 \<longrightarrow>
     snd (rate (JNumber r) s) = None \<and>
     b_rateSeek (fst (rate (JNumber r) s)) = currentSeek s \<and>
     b_startTime (fst (rate (JNumber r) s)) = b_now s \<and>
     b_rate (fst (rate (JNumber r) s)) = r \<and>
     b_bufferSourceNode (fst (rate (JNumber r) s)) = Some (n\<lparr>n_playbackRate := r\<rparr>) \<and>
     b_endTimer (fst (rate (JNumber r) s)) =
       Some \<lparr>t_delay = Num ((b_endPos s - b_startPos s) * 1000 / r), t_armedAt = b_now s\<rparr> \<and>
     b_state (fst (rate (JNumber r) s)) = Playing"
  by (auto simp: rate_def Let_def isPlaying_def fire_def setTimeout_def clearEndTimer_def
        getTimeVars_def jsdiv_def split: option.splits prod.splits)

theorem rate_rearms_full_region_witness:
  "isPlaying (advance 8 (play None True (loadedBuzz 10 False))) \<and>
   b_bufferSourceNode (advance 8 (play None True (loadedBuzz 10 False))) =
     Some \<lparr>n_playbackRate = 1, n_loop = False, n_loopStart = 0, n_loopEnd = 10,
           n_when = 0, n_offset = 0, n_duration = 10\<rparr> \<and>
   b_rateSeek (fst (rate (JNumber 2) (advance 8 (play None True (loadedBuzz 10 False))))) = 8 \<and>
   b_startTime (fst (rate (JNumber 2) (advance 8 (play None True (loadedBuzz 10 False))))) = 8 \<and>
   b_endTimer (fst (rate (JNumber 2) (advance 8 (play None True (loadedBuzz 10 False))))) =
     Some \<lparr>t_delay = Num (10 * 1000 / 2), t_armedAt = 8\<rparr>"
  using rate_rearms_full_region
    [of "advance 8 (play None True (loadedBuzz 10 False))"
        "\<lparr>n_playbackRate = 1, n_loop = False, n_loopStart = 0, n_loopEnd = 10,
           n_when = 0, n_offset = 0, n_duration = 10\<rparr>" 2]
  by (simp add: buzz_defs rate_def currentSeek_def)

text \<open>
  C6. \<^verbatim>\<open>seek(p)\<close> on a playing sound pauses it, writes p to \<^verbatim>\<open>_elapsed\<close>, fires
  \<^verbatim>\<open>seek\<close> and calls \<^verbatim>\<open>_play(null, false)\<close>; but \<^verbatim>\<open>_play\<close> takes the node's start
  offset from \<^verbatim>\<open>_getTimeVars\<close>, which reads \<^verbatim>\<open>_seek\<close> and \<^verbatim>\<open>_startPos\<close>. For a sound
  of 10 seconds playing for 3 seconds, \<^verbatim>\<open>seek(5)\<close> restarts the node at offset 0. The
  offset is the same for every accepted position (lemma \<open>seek_offset_ignores_position\<close>);
  the rejections and the idle case are as the claim says
  (\<open>seek_rejects_out_of_range\<close>, \<open>seek_idle\<close>).
\<close>

theorem seek_resumes_from_region_start:
  "isLoaded (advance 3 (play None True (loadedBuzz 10 False))) \<and>
   isPlaying (advance 3 (play None True (loadedBuzz 10 False))) \<and>
   b_state (seek (JNumber 5) (advance 3 (play None True (loadedBuzz 10 False)))) = Playing \<and>
   b_elapsed (seek (JNumber 5) (advance 3 (play None True (loadedBuzz 10 False)))) = 5 \<and>
   b_fired (seek (JNumber 5) (advance 3 (play None True (loadedBuzz 10 False)))) =
     [(''play'', []), (''seek'', [5])] \<and>
   map_option n_offset
     (b_bufferSourceNode (seek (JNumber 5) (advance 3 (play None True (loadedBuzz 10 False)))))
     = Some 0"
  by (simp add: buzz_defs seek_def pause_def reset_def currentSeek_def)

lemma seek_rejects_out_of_range:
  "isLoaded s \<Longrightarrow> p < 0 \<or> b_duration s < p \<Longrightarrow> seek (JNumber p) s = s"
  by (auto simp: seek_def)

lemma seek_idle:
  "isLoaded s \<Longrightarrow> \<not> isPlaying s \<Longrightarrow> 0 \<le> p \<Longrightarrow> p \<le> b_duration s \<Longrightarrow>
   seek (JNumber p) s = s\<lparr>b_elapsed := p, b_fired := b_fired s @ [(''seek'', [p])]\<rparr>"
  by (simp add: seek_def fire_def Let_def)

lemma seek_offset_ignores_position:
  assumes "isLoaded s" and "isPlaying s" and "0 \<le> p" and "p \<le> b_duration s"
    and "0 \<le> q" and "q \<le> b_duration s"
  shows "b_bufferSourceNode (seek (JNumber p) s) = b_bufferSourceNode (seek (JNumber q) s)"
  using assms
  by (simp add: seek_def play_def pause_def reset_def Let_def isPlaying_def isPaused_def
        isLoaded_def fire_def getTimeVars_def setTimeout_def playNode_def clearEndTimer_def
        stopNode_def cleanNode_def split: option.splits prod.splits)

section \<open>Properties of the media loader\<close>

lemma cleanUpEntry_frame:
  "promises (fst (cleanUpEntry obj l)) = promises l"
  "disposed (fst (cleanUpEntry obj l)) = disposed l"
  "audioPool (fst (cleanUpEntry obj l)) = audioPool l"
  by (simp_all add: cleanUpEntry_def Let_def split: option.splits)

lemma cleanUpEntry_no_error:
  "bufferingAudios l = Some bs \<Longrightarrow> snd (cleanUpEntry obj l) = None"
  by (simp add: cleanUpEntry_def Let_def)

text \<open>
  The slip in \<^verbatim>\<open>_cleanUp\<close>: the listener it asks the element to remove is read at the
  key \<^verbatim>\<open>audioObj\<close> instead of \<^verbatim>\<open>evt\<close>, so no listener is removed.
\<close>

lemma cleanUpEntry_keeps_listeners:
  "listeners (elements (fst (cleanUpEntry obj l)) a) = listeners (elements l a)"
  by (simp add: cleanUpEntry_def Let_def listenerAt_def objectToString_def
        removeEventListener_def split: option.splits)

lemma found_cleanUp_frame:
  fixes P :: "AudioObj \<Rightarrow> bool"
  assumes "bufferingAudios l = Some bs"
  shows "(case find P bs of None \<Rightarrow> (l, None) | Some obj \<Rightarrow> cleanUpEntry obj l) =
           (fst (case find P bs of None \<Rightarrow> (l, None) | Some obj \<Rightarrow> cleanUpEntry obj l), None)"
    and "promises (fst (case find P bs of None \<Rightarrow> (l, None) | Some obj \<Rightarrow> cleanUpEntry obj l)) = promises l"
    and "audioPool (fst (case find P bs of None \<Rightarrow> (l, None) | Some obj \<Rightarrow> cleanUpEntry obj l)) = audioPool l"
    and "disposed (fst (case find P bs of None \<Rightarrow> (l, None) | Some obj \<Rightarrow> cleanUpEntry obj l)) = disposed l"
  using assms
  by (simp_all add: prod_eq_iff cleanUpEntry_frame cleanUpEntry_no_error split: option.splits)

lemma onCanPlayThrough_live:
  assumes "\<not> disposed l" and "bufferingAudios l = Some bs"
  shows "onCanPlayThrough c l =
     (resolve (l_promise c) \<lparr>dr_url = l_url c, dr_value = Some (l_audio c), dr_error = None\<rparr>
        (fst (case find (\<lambda>obj. ao_audio obj = l_audio c) bs of
                None \<Rightarrow> (l, None) | Some obj \<Rightarrow> cleanUpEntry obj l)), None)"
proof -
  note eq = found_cleanUp_frame(1) [OF assms(2), of "\<lambda>obj. ao_audio obj = l_audio c"]
  show ?thesis
    unfolding onCanPlayThrough_def using assms
    by (simp, subst eq, simp)
qed

lemma onError_live:
  assumes "\<not> disposed l" and "bufferingAudios l = Some bs" and "audioPool l = Some pool"
  shows "onError c err l =
     (resolve (l_promise c) \<lparr>dr_url = l_url c, dr_value = None, dr_error = Some err\<rparr>
        ((fst (case find (\<lambda>obj. ao_audio obj = l_audio c) bs of
                 None \<Rightarrow> (l, None) | Some obj \<Rightarrow> cleanUpEntry obj l))
           \<lparr>audioPool := Some (destroyAllocatedAudio (l_url c) (l_groupId c) (l_audio c) pool)\<rparr>),
      None)"
proof -
  note eq = found_cleanUp_frame(1) [OF assms(2), of "\<lambda>obj. ao_audio obj = l_audio c"]
  note pl = found_cleanUp_frame(3) [OF assms(2), of "\<lambda>obj. ao_audio obj = l_audio c"]
  show ?thesis
    unfolding onError_def using assms pl
    by (simp, subst eq, simp)
qed

lemma resolve_pending:
  "k < length (promises l) \<Longrightarrow> promises l ! k = Pending \<Longrightarrow>
   promises (resolve k r l) ! k = Resolved r"
  by (simp add: resolve_def)

lemma resolve_frame:
  "audioPool (resolve k r l) = audioPool l"
  "disposed (resolve k r l) = disposed l"
  by (simp_all add: resolve_def)

lemma resolve_never_rejects:
  "promises (resolve k r l) ! j = Rejected e \<Longrightarrow> promises l ! j = Rejected e"
  by (cases "j = k") (auto simp: resolve_def split: if_splits)

lemma find_cleanUp_promises:
  "promises (fst (case find P bs of None \<Rightarrow> (l, None) | Some obj \<Rightarrow> cleanUpEntry obj l)) = promises l"
  by (simp add: cleanUpEntry_frame split: option.splits)

lemma onCanPlayThrough_never_rejects:
  assumes "promises (fst (onCanPlayThrough c l)) ! j = Rejected e"
  shows "promises l ! j = Rejected e"
proof (cases "disposed l \<or> bufferingAudios l = None")
  case True
  then show ?thesis using assms by (auto simp: onCanPlayThrough_def split: if_splits)
next
  case False
  then obtain bs where bs: "bufferingAudios l = Some bs" and live: "\<not> disposed l" by auto
  show ?thesis
    using assms unfolding onCanPlayThrough_live [OF live bs]
    by (auto dest!: resolve_never_rejects simp: find_cleanUp_promises)
qed

lemma onError_never_rejects:
  assumes "promises (fst (onError c err l)) ! j = Rejected e"
  shows "promises l ! j = Rejected e"
proof (cases "disposed l \<or> bufferingAudios l = None")
  case True
  then show ?thesis using assms by (auto simp: onError_def split: if_splits)
next
  case False
  then obtain bs where bs: "bufferingAudios l = Some bs" and live: "\<not> disposed l" by auto
  note pl = found_cleanUp_frame(3) [OF bs, of "\<lambda>obj. ao_audio obj = l_audio c"]
  note pr = found_cleanUp_frame(2) [OF bs, of "\<lambda>obj. ao_audio obj = l_audio c"]
  note eq = found_cleanUp_frame(1) [OF bs, of "\<lambda>obj. ao_audio obj = l_audio c"]
  show ?thesis
  proof (cases "audioPool l")
    case None
    then show ?thesis
      using assms live bs pl pr unfolding onError_def
      by (simp, subst (asm) eq, simp)
  next
    case (Some pool)
    show ?thesis
      using assms unfolding onError_live [OF live bs Some]
      by (auto dest!: resolve_never_rejects simp: find_cleanUp_promises)
  qed
qed

text \<open>
  What \<^verbatim>\<open>_load\<close> leaves behind when the pool gave it a handle whose element has no
  source yet: a pending promise, and the two closures on the element.
\<close>

lemma load_registers_handlers:
  assumes live: "\<not> disposed l" "audioPool l = Some pool" "bufferingAudios l = Some bs"
    and alloc: "(case groupId of
                   None \<Rightarrow> allocateForSource url pool
                 | Some g \<Rightarrow> if g \<noteq> 0 then allocateForGroup url g pool
                             else allocateForSource url pool) = (pool1, Inr h)"
    and fresh: "src (elements l (audio h)) = []"
  shows "snd (MediaLoader_load url groupId l) = length (promises l)"
    and "promises (fst (MediaLoader_load url groupId l)) = promises l @ [Pending]"
    and "(''canplaythrough'',
          \<lparr>l_kind = OnCanPlayThrough, l_url = url, l_groupId = groupId, l_audio = audio h,
            l_promise = length (promises l)\<rparr>)
           \<in> set (listeners (elements (fst (MediaLoader_load url groupId l)) (audio h)))"
    and "(''error'',
          \<lparr>l_kind = OnError, l_url = url, l_groupId = groupId, l_audio = audio h,
            l_promise = length (promises l)\<rparr>)
           \<in> set (listeners (elements (fst (MediaLoader_load url groupId l)) (audio h)))"
    and "\<not> disposed (fst (MediaLoader_load url groupId l))"
  using assms
  by (auto simp: MediaLoader_load_def Let_def addEventListener_def split: option.splits)

lemmas loader_defs = MediaLoader_load_def MediaLoader_new_def Html5AudioPool_new_def
  allocateForSource_def allocateForGroup_def emptyNodes_def totalNodes_def newAudio_def
  addEventListener_def removeEventListener_def listenerAt_def objectToString_def
  cleanUpEntry_def splice1_def resolve_def reject_def onCanPlayThrough_def Let_def

text \<open>
  C7, as stated, fails on a loader that is disposed while the load is in flight: the
  handlers' guard \<^verbatim>\<open>if (this._disposed) return;\<close> returns before \<^verbatim>\<open>resolve\<close>. A load is
  started, the loader is disposed, and the element then signals readiness (or an
  error): the listeners are still registered, and the promise stays pending.
\<close>

theorem load_promise_pending_after_dispose:
  "promises (dispatchEvent ''canplaythrough'' [] 0
      (fst (MediaLoader_dispose (fst (MediaLoader_load ''a.mp3'' None (MediaLoader_new 2)))))) ! 0
     = Pending \<and>
   promises (dispatchEvent ''canplaythrough'' [] 0
      (fst (MediaLoader_dispose (fst (MediaLoader_load ''a.mp3'' None (MediaLoader_new 2)))))) ! 0
     \<noteq> Resolved \<lparr>dr_url = ''a.mp3'', dr_value = Some 0, dr_error = None\<rparr> \<and>
   promises (dispatchEvent ''error'' ''failed'' 0
      (fst (MediaLoader_dispose (fst (MediaLoader_load ''a.mp3'' None (MediaLoader_new 2)))))) ! 0
     = Pending \<and>
   listeners (elements
      (fst (MediaLoader_dispose (fst (MediaLoader_load ''a.mp3'' None (MediaLoader_new 2))))) 0) =
     [(''canplaythrough'', \<lparr>l_kind = OnCanPlayThrough, l_url = ''a.mp3'', l_groupId = None,
                              l_audio = 0, l_promise = 0\<rparr>),
      (''error'', \<lparr>l_kind = OnError, l_url = ''a.mp3'', l_groupId = None,
                     l_audio = 0, l_promise = 0\<rparr>)]"
  by (simp add: loader_defs destroyAllocatedAudio_def MediaLoader_dispose_def onError_def
        runListener_def dispatchEvent_def)

text \<open>
  C7 (amended). The handlers \<^verbatim>\<open>_load\<close> registers never reject the promise. While the
  loader is not disposed, the readiness handler resolves the pending promise with the
  url and the handle, and the error handler resolves it with the url, a null handle and
  the error after calling the pool's \<open>destroyAllocatedAudio\<close> for the handle; neither
  throws. Once the loader is disposed, both handlers return at once and change nothing,
  so the promise stays as it is.
\<close>

theorem load_handlers_settle:
  "(\<not> disposed l \<and> bufferingAudios l = Some bs \<and> l_promise c < length (promises l) \<and>
      promises l ! l_promise c = Pending \<longrightarrow>
        snd (onCanPlayThrough c l) = None \<and>
        promises (fst (onCanPlayThrough c l)) ! l_promise c =
          Resolved \<lparr>dr_url = l_url c, dr_value = Some (l_audio c), dr_error = None\<rparr>) \<and>
   (\<not> disposed l \<and> bufferingAudios l = Some bs \<and> audioPool l = Some pool \<and>
      l_promise c < length (promises l) \<and> promises l ! l_promise c = Pending \<longrightarrow>
        snd (onError c err l) = None \<and>
        promises (fst (onError c err l)) ! l_promise c =
          Resolved \<lparr>dr_url = l_url c, dr_value = None, dr_error = Some err\<rparr> \<and>
        audioPool (fst (onError c err l)) =
          Some (destroyAllocatedAudio (l_url c) (l_groupId c) (l_audio c) pool)) \<and>
   (disposed l \<longrightarrow> onCanPlayThrough c l = (l, None) \<and> onError c err l = (l, None)) \<and>
   (promises (fst (onCanPlayThrough c l)) ! j = Rejected e \<longrightarrow> promises l ! j = Rejected e) \<and>
   (promises (fst (onError c err l)) ! j = Rejected e \<longrightarrow> promises l ! j = Rejected e)"
proof (intro conjI impI)
  assume h: "\<not> disposed l \<and> bufferingAudios l = Some bs \<and> l_promise c < length (promises l) \<and>
      promises l ! l_promise c = Pending"
  then have live: "\<not> disposed l" and bs: "bufferingAudios l = Some bs" by simp_all
  show "snd (onCanPlayThrough c l) = None"
    by (simp add: onCanPlayThrough_live [OF live bs])
  show "promises (fst (onCanPlayThrough c l)) ! l_promise c =
          Resolved \<lparr>dr_url = l_url c, dr_value = Some (l_audio c), dr_error = None\<rparr>"
    using h by (simp add: onCanPlayThrough_live [OF live bs] resolve_pending find_cleanUp_promises)
next
  assume h: "\<not> disposed l \<and> bufferingAudios l = Some bs \<and> audioPool l = Some pool \<and>
      l_promise c < length (promises l) \<and> promises l ! l_promise c = Pending"
  then have live: "\<not> disposed l" and bs: "bufferingAudios l = Some bs"
    and pool: "audioPool l = Some pool" by simp_all
  show "snd (onError c err l) = None"
    by (simp add: onError_live [OF live bs pool])
  show "promises (fst (onError c err l)) ! l_promise c =
          Resolved \<lparr>dr_url = l_url c, dr_value = None, dr_error = Some err\<rparr>"
    using h by (simp add: onError_live [OF live bs pool] resolve_pending find_cleanUp_promises)
  show "audioPool (fst (onError c err l)) =
          Some (destroyAllocatedAudio (l_url c) (l_groupId c) (l_audio c) pool)"
    by (simp add: onError_live [OF live bs pool] resolve_frame)
next
  assume "disposed l"
  then show "onCanPlayThrough c l = (l, None)" by (simp add: onCanPlayThrough_def)
next
  assume "disposed l"
  then show "onError c err l = (l, None)" by (simp add: onError_def)
next
  assume "promises (fst (onCanPlayThrough c l)) ! j = Rejected e"
  then show "promises l ! j = Rejected e" by (rule onCanPlayThrough_never_rejects)
next
  assume "promises (fst (onError c err l)) ! j = Rejected e"
  then show "promises l ! j = Rejected e" by (rule onError_never_rejects)
qed


theorem load_handlers_settle_witness:
  "\<not> disposed (fst (MediaLoader_load ''a.mp3'' (Some 7) (MediaLoader_new 2))) \<and>
   bufferingAudios (fst (MediaLoader_load ''a.mp3'' (Some 7) (MediaLoader_new 2))) =
     Some [\<lparr>ao_url = ''a.mp3'', ao_groupId = Some 7, ao_audio = 0,
            ao_canplaythrough = \<lparr>l_kind = OnCanPlayThrough, l_url = ''a.mp3'', l_groupId = Some 7,
                                  l_audio = 0, l_promise = 0\<rparr>,
            ao_error = \<lparr>l_kind = OnError, l_url = ''a.mp3'', l_groupId = Some 7,
                         l_audio = 0, l_promise = 0\<rparr>\<rparr>] \<and>
   audioPool (fst (MediaLoader_load ''a.mp3'' (Some 7) (MediaLoader_new 2))) =
     Some \<lparr>maxNodesPerSource = 2,
           resourceNodesMap =
             [(''a.mp3'', \<lparr>unallocated = [],
                            allocated = [(7, [\<lparr>audio = 0, soundId = None\<rparr>])]\<rparr>)],
           audioCount = 1\<rparr> \<and>
   promises (fst (MediaLoader_load ''a.mp3'' (Some 7) (MediaLoader_new 2))) = [Pending] \<and>
   promises (fst (onCanPlayThrough
       \<lparr>l_kind = OnCanPlayThrough, l_url = ''a.mp3'', l_groupId = Some 7, l_audio = 0, l_promise = 0\<rparr>
       (fst (MediaLoader_load ''a.mp3'' (Some 7) (MediaLoader_new 2))))) ! 0 =
     Resolved \<lparr>dr_url = ''a.mp3'', dr_value = Some 0, dr_error = None\<rparr> \<and>
   promises (fst (onError
       \<lparr>l_kind = OnCanPlayThrough, l_url = ''a.mp3'', l_groupId = Some 7, l_audio = 0, l_promise = 0\<rparr>
       ''failed'' (fst (MediaLoader_load ''a.mp3'' (Some 7) (MediaLoader_new 2))))) ! 0 =
     Resolved \<lparr>dr_url = ''a.mp3'', dr_value = None, dr_error = Some ''failed''\<rparr> \<and>
   audioPool (fst (onError
       \<lparr>l_kind = OnCanPlayThrough, l_url = ''a.mp3'', l_groupId = Some 7, l_audio = 0, l_promise = 0\<rparr>
       ''failed'' (fst (MediaLoader_load ''a.mp3'' (Some 7) (MediaLoader_new 2))))) =
     Some \<lparr>maxNodesPerSource = 2,
           resourceNodesMap = [(''a.mp3'', \<lparr>unallocated = [], allocated = [(7, [])]\<rparr>)],
           audioCount = 1\<rparr> \<and>
   promises (dispatchEvent ''canplaythrough'' [] 0
       (fst (MediaLoader_load ''a.mp3'' (Some 7) (MediaLoader_new 2)))) =
     [Resolved \<lparr>dr_url = ''a.mp3'', dr_value = Some 0, dr_error = None\<rparr>] \<and>
   promises (dispatchEvent ''error'' ''failed'' 0
       (fst (MediaLoader_load ''a.mp3'' (Some 7) (MediaLoader_new 2)))) =
     [Resolved \<lparr>dr_url = ''a.mp3'', dr_value = None, dr_error = Some ''failed''\<rparr>]"
  using load_handlers_settle
    [of "fst (MediaLoader_load ''a.mp3'' (Some 7) (MediaLoader_new 2))"
        "[\<lparr>ao_url = ''a.mp3'', ao_groupId = Some 7, ao_audio = 0,
            ao_canplaythrough = \<lparr>l_kind = OnCanPlayThrough, l_url = ''a.mp3'', l_groupId = Some 7,
                                  l_audio = 0, l_promise = 0\<rparr>,
            ao_error = \<lparr>l_kind = OnError, l_url = ''a.mp3'', l_groupId = Some 7,
                         l_audio = 0, l_promise = 0\<rparr>\<rparr>]"
        "\<lparr>l_kind = OnCanPlayThrough, l_url = ''a.mp3'', l_groupId = Some 7, l_audio = 0, l_promise = 0\<rparr>"
        "\<lparr>maxNodesPerSource = 2,
           resourceNodesMap =
             [(''a.mp3'', \<lparr>unallocated = [],
                            allocated = [(7, [\<lparr>audio = 0, soundId = None\<rparr>])]\<rparr>)],
           audioCount = 1\<rparr>"
        "''failed''" 0 TypeError]
  by (simp add: loader_defs destroyAllocatedAudio_def MediaLoader_dispose_def onError_def
        runListener_def dispatchEvent_def)

text \<open>
  C8. \<^verbatim>\<open>unload\<close> ends with \<^verbatim>\<open>urls.forEach(...)\<close> whatever \<^verbatim>\<open>urls\<close> is, so a call
  with no argument or with a single url string throws a \<^verbatim>\<open>TypeError\<close>; only a call
  with an array completes. With one load of \<^verbatim>\<open>a.mp3\<close> in flight: both calls throw,
  and the call with an array completes but leaves both readiness listeners on the
  element, as \<^verbatim>\<open>_cleanUp\<close> removes none.
\<close>

theorem unload_throws_without_array:
  "snd (MediaLoader_unload JUndefined (fst (MediaLoader_load ''a.mp3'' None (MediaLoader_new 2))))
     = Some TypeError \<and>
   snd (MediaLoader_unload (JString ''a.mp3'')
          (fst (MediaLoader_load ''a.mp3'' None (MediaLoader_new 2))))
     = Some TypeError \<and>
   snd (MediaLoader_unload (JArray [''a.mp3''])
          (fst (MediaLoader_load ''a.mp3'' None (MediaLoader_new 2))))
     = None \<and>
   listeners (elements (fst (MediaLoader_unload (JArray [''a.mp3''])
          (fst (MediaLoader_load ''a.mp3'' None (MediaLoader_new 2))))) 0) =
     [(''canplaythrough'', \<lparr>l_kind = OnCanPlayThrough, l_url = ''a.mp3'', l_groupId = None,
                              l_audio = 0, l_promise = 0\<rparr>),
      (''error'', \<lparr>l_kind = OnError, l_url = ''a.mp3'', l_groupId = None,
                     l_audio = 0, l_promise = 0\<rparr>)]"
  by (simp add: loader_defs MediaLoader_unload_def cleanUpAt_def removeAudioObjOfUrl_def
        releaseUrl_def releaseForSource_def)

lemma unload_throws_unless_array:
  "(\<And>us. urls \<noteq> JArray us) \<Longrightarrow> snd (MediaLoader_unload urls l) \<noteq> None"
  by (cases urls) (auto simp: MediaLoader_unload_def Let_def split: prod.splits option.splits)

section \<open>Properties of the engine\<close>

lemmas engine_defs = Engine_new_def Engine_setup_def readOptions_def whenNumber_def
  whenBoolean_def noArgs_def engineOn_def engineFire_def Let_def










lemma engineOn_frame:
  "e_state (engineOn evt h e) = e_state e"
  "e_context (engineOn evt h e) = e_context e"
  "e_pending (engineOn evt h e) = e_pending e"
  by (cases h; simp add: engineOn_def)+

lemma whenNumber_frame:
  assumes "\<And>x e. g (f x e) = g e"
  shows "g (whenNumber v f e) = g e"
  using assms by (cases v) (simp_all add: whenNumber_def)

lemma whenBoolean_frame:
  assumes "\<And>x e. g (f x e) = g e"
  shows "g (whenBoolean v f e) = g e"
  using assms by (cases v) (simp_all add: whenBoolean_def)

lemma readOptions_frame:
  "e_state (readOptions a e) = e_state e"
  "e_context (readOptions a e) = e_context e"
  "e_pending (readOptions a e) = e_pending e"
  by (simp_all add: readOptions_def Let_def engineOn_frame whenNumber_frame whenBoolean_frame)

lemma setup_inStep:
  "inStep (Engine_setup (Some ctx) args Engine_new)"
  by (simp add: Engine_setup_def inStep_def Let_def readOptions_frame)
     (simp add: Engine_new_def)











text \<open>
  Neither \<^verbatim>\<open>suspend()\<close> nor the completion of a context operation reads or writes
  \<^verbatim>\<open>_soundsArray\<close>.
\<close>

lemma suspend_keeps_soundsArray:
  "e_soundsArray (fst (Engine_suspend e)) = e_soundsArray e"
  by (simp add: Engine_suspend_def contextCall_def Let_def Engine_stop_def engineFire_def
        split: option.splits)

lemma setup_leaves_NotReady:
  "e_state (Engine_setup getContext args e) \<noteq> NotReady"
  by (cases getContext)
     (simp_all add: Engine_setup_def Let_def engineFire_def)




text \<open>
  C10. For every engine whose state is anything other than \<open>NotReady\<close>, \<^verbatim>\<open>setup\<close> with
  any arguments returns the engine as it is: no option is read, no context, gain node,
  loader or timer is created, and the state is unmodified. As \<^verbatim>\<open>setup\<close> never leaves
  an engine \<open>NotReady\<close>, a second \<^verbatim>\<open>setup\<close> changes nothing.
\<close>

theorem setup_only_once:
  "(e_state e \<noteq> NotReady \<longrightarrow> Engine_setup getContext args e = e) \<and>
   Engine_setup getContext' args' (Engine_setup getContext args e) =
     Engine_setup getContext args e"
proof
  show "e_state e \<noteq> NotReady \<longrightarrow> Engine_setup getContext args e = e"
    by (simp add: Engine_setup_def)
  have "e_state (Engine_setup getContext args e) \<noteq> NotReady"
    by (rule setup_leaves_NotReady)
  then show "Engine_setup getContext' args' (Engine_setup getContext args e) =
     Engine_setup getContext args e"
    by (simp add: Engine_setup_def [of getContext' args'])
qed

theorem setup_only_once_witness:
  "e_state (Engine_setup (Some \<lparr>ctx_state = CtxRunning, ctx_currentTime = 0\<rparr>) None Engine_new)
     = Ready \<and>
   Engine_setup None (Some (noArgs\<lparr>a_volume := JNumber (1/2), a_muted := JBoolean True\<rparr>))
      (Engine_setup (Some \<lparr>ctx_state = CtxRunning, ctx_currentTime = 0\<rparr>) None Engine_new) =
     Engine_setup (Some \<lparr>ctx_state = CtxRunning, ctx_currentTime = 0\<rparr>) None Engine_new \<and>
   e_volume (Engine_setup None (Some (noArgs\<lparr>a_volume := JNumber (1/2), a_muted := JBoolean True\<rparr>))
      (Engine_setup (Some \<lparr>ctx_state = CtxRunning, ctx_currentTime = 0\<rparr>) None Engine_new)) = 1"
proof -
  have st: "e_state (Engine_setup (Some \<lparr>ctx_state = CtxRunning, ctx_currentTime = 0\<rparr>) None Engine_new)
     = Ready"
    by (simp add: Engine_setup_def Let_def readOptions_frame) (simp add: Engine_new_def)
  have vol: "e_volume (Engine_setup (Some \<lparr>ctx_state = CtxRunning, ctx_currentTime = 0\<rparr>) None Engine_new) = 1"
    by (simp add: engine_defs)
  from st vol setup_only_once
    [of "Engine_setup (Some \<lparr>ctx_state = CtxRunning, ctx_currentTime = 0\<rparr>) None Engine_new"
        None "Some (noArgs\<lparr>a_volume := JNumber (1/2), a_muted := JBoolean True\<rparr>)"]
  show ?thesis by simp
qed

end
